theory Spec2Isabelle
  imports Complex_Main "HOL-Library.Sublist"
begin

section \<open>Harmony Travels: the booking form and the ticket renderer (ticket.js)\<close>

text \<open>
  The development follows \<^verbatim>\<open>src/ticket.js\<close>. JavaScript strings are represented by
  their UTF-8 bytes (\<^typ>\<open>string\<close>; the strings are well-formed Unicode), numbers that the
  program keeps integral by \<^typ>\<open>int\<close>, and the fractional intermediate results of
  \<^verbatim>\<open>price * 0.05\<close> and of the page-fitting arithmetic by exact rationals. What the browser
  provides (the clock, the \<^verbatim>\<open>Date\<close> parser, locale formatting, html2canvas, jsPDF, the
  clipboard) is a parameter of the model, collected in the record \<open>env\<close>.

  The page has the form controls and buttons that the script reads without a test; the
  ticket container and the toast element, which the script tests for, may be absent. The
  provider and class controls are drop-downs. A listener runs to its end before the next
  one starts, the asynchronous export operations included. An exception that leaves a
  listener is a result of the model (\<open>Inl\<close>), and what a listener does to the world
  outside the page (alerts, toasts, downloads, printing) is logged in the page state.

  The renderer writes markup: \<^verbatim>\<open>buildHtml\<close> returns one string, with the fields of the
  ticket interpolated as they are, and \<^verbatim>\<open>init\<close> assigns it to \<^verbatim>\<open>innerHTML\<close> of the
  container. The page state holds that string, and what the browser makes of it is read
  off the tokens of the HTML tokenizer.
\<close>

subsection \<open>Strings and numbers of the platform\<close>

definition digit_char :: "nat \<Rightarrow> char" where
  "digit_char d = ''0123456789'' ! (d mod 10)"

text \<open>\<^verbatim>\<open>String(n)\<close> for a non-negative integer.\<close>

function show_nat :: "nat \<Rightarrow> string" where
  "show_nat n = (if n < 10 then [digit_char n] else show_nat (n div 10) @ [digit_char (n mod 10)])"
  by pat_completeness auto
termination
  by (relation "measure id") auto

declare show_nat.simps [simp del]

text \<open>\<^verbatim>\<open>String(i)\<close> and \<^verbatim>\<open>i.toString()\<close> for an integer.\<close>

definition show_int :: "int \<Rightarrow> string" where
  "show_int i = (if i < 0 then CHR ''-'' # show_nat (nat (- i)) else show_nat (nat i))"

text \<open>\<^verbatim>\<open>s.padStart(2, '0')\<close>.\<close>

definition padStart2 :: "string \<Rightarrow> string" where
  "padStart2 s = replicate (2 - length s) CHR ''0'' @ s"

text \<open>\<^verbatim>\<open>s.slice(-6)\<close>: the last six characters, or all of \<open>s\<close> when it is shorter.\<close>

definition slice_last6 :: "string \<Rightarrow> string" where
  "slice_last6 s = drop (length s - 6) s"

text \<open>
  \<^verbatim>\<open>Math.round\<close> rounds to the nearest integer, a tie towards \<open>+\<infinity>\<close>. The exact
  product stands for the double \<^verbatim>\<open>price * 0.05\<close>: the double nearest to 0.05 is
  \<open>0.05 * (1 + 2 ^ - 54)\<close>, so for an integer price \<open>p\<close> a tie \<open>p / 20 = k + 1/2\<close> is computed
  exactly (the error is under half a unit in the last place), and any other \<open>p / 20\<close> is
  at least 0.05 away from a tie, far more than the error for any price below \<open>10 ^ 15\<close>.
\<close>

definition Math_round :: "rat \<Rightarrow> int" where
  "Math_round x = \<lfloor>x + 1 / 2\<rfloor>"

text \<open>
  The white space that \<^verbatim>\<open>String.prototype.trim\<close> and the pattern \<^verbatim>\<open>\s\<close> recognise
  (WhiteSpace and LineTerminator of ECMAScript), each code point in UTF-8.
\<close>

definition js_whitespace :: "string list" where
  "js_whitespace =
    [[CHR 0x09], [CHR 0x0A], [CHR 0x0B], [CHR 0x0C], [CHR 0x0D], [CHR 0x20],
     [CHR 0xC2, CHR 0xA0],
     [CHR 0xE1, CHR 0x9A, CHR 0x80],
     [CHR 0xE2, CHR 0x80, CHR 0x80], [CHR 0xE2, CHR 0x80, CHR 0x81],
     [CHR 0xE2, CHR 0x80, CHR 0x82], [CHR 0xE2, CHR 0x80, CHR 0x83],
     [CHR 0xE2, CHR 0x80, CHR 0x84], [CHR 0xE2, CHR 0x80, CHR 0x85],
     [CHR 0xE2, CHR 0x80, CHR 0x86], [CHR 0xE2, CHR 0x80, CHR 0x87],
     [CHR 0xE2, CHR 0x80, CHR 0x88], [CHR 0xE2, CHR 0x80, CHR 0x89],
     [CHR 0xE2, CHR 0x80, CHR 0x8A],
     [CHR 0xE2, CHR 0x80, CHR 0xA8], [CHR 0xE2, CHR 0x80, CHR 0xA9],
     [CHR 0xE2, CHR 0x80, CHR 0xAF],
     [CHR 0xE2, CHR 0x81, CHR 0x9F],
     [CHR 0xE3, CHR 0x80, CHR 0x80],
     [CHR 0xEF, CHR 0xBB, CHR 0xBF]]"

text \<open>The white-space sequence that \<open>s\<close> starts with, if any.\<close>

fun leading_ws :: "string list \<Rightarrow> string \<Rightarrow> string option" where
  "leading_ws [] s = None"
| "leading_ws (w # ws) s = (if w \<noteq> [] \<and> take (length w) s = w then Some w else leading_ws ws s)"

lemma leading_ws_Some: "leading_ws ws s = Some w \<Longrightarrow> w \<noteq> [] \<and> length w \<le> length s"
proof (induction ws)
  case Nil
  then show ?case by simp
next
  case (Cons a ws)
  show ?case
  proof (cases "a \<noteq> [] \<and> take (length a) s = a")
    case True
    with Cons.prems have "w = a" by simp
    moreover from True have "length a \<le> length s"
      by (metis length_take min.cobounded1)
    ultimately show ?thesis using True by simp
  next
    case False
    with Cons show ?thesis by auto
  qed
qed

function trimStart_with :: "string list \<Rightarrow> string \<Rightarrow> string" where
  "trimStart_with ws s =
     (case leading_ws ws s of None \<Rightarrow> s | Some w \<Rightarrow> trimStart_with ws (drop (length w) s))"
  by pat_completeness auto
termination
proof (relation "measure (\<lambda>(ws, s). length s)")
  show "wf (measure (\<lambda>(ws, s). length s))" by simp
next
  fix ws :: "string list" and s w :: string
  assume "leading_ws ws s = Some w"
  then have "w \<noteq> []" "length w \<le> length s" using leading_ws_Some by blast+
  then show "((ws, drop (length w) s), (ws, s)) \<in> measure (\<lambda>(ws, s). length s)"
    by (cases w) auto
qed

declare trimStart_with.simps [simp del]

text \<open>\<^verbatim>\<open>s.trim()\<close>: white space removed at both ends.\<close>

definition trim :: "string \<Rightarrow> string" where
  "trim s = rev (trimStart_with (map rev js_whitespace) (rev (trimStart_with js_whitespace s)))"

subsection \<open>Values and property lookup\<close>

text \<open>
  The values that reach the price, tax and total slots of a ticket. The price is what
  \<^verbatim>\<open>getPrice\<close> returns: a number of the matrix, or the function or object that every
  object literal inherits from \<^verbatim>\<open>Object.prototype\<close> under the name \<open>k\<close>
  (\<open>Inherited_value k\<close>). The tax is a number or \<^verbatim>\<open>NaN\<close>. The total
  \<^verbatim>\<open>price + taxes\<close> is a number, \<^verbatim>\<open>NaN\<close>, or for an inherited value \<open>v\<close> and the
  tax \<^verbatim>\<open>NaN\<close> the string \<^verbatim>\<open>String(v) + "NaN"\<close> (\<open>Total_text k\<close>).
\<close>

datatype price_value = Price int | Inherited_value string

datatype js_number = Num int | NaN

datatype total_value = Total int | Total_NaN | Total_text string

datatype js_error = TypeError | RangeError | Error string

text \<open>The property names that an object literal inherits.\<close>

definition Object_prototype :: "string list" where
  "Object_prototype =
    [''constructor'', ''__defineGetter__'', ''__defineSetter__'', ''hasOwnProperty'',
     ''__lookupGetter__'', ''__lookupSetter__'', ''isPrototypeOf'', ''propertyIsEnumerable'',
     ''toString'', ''valueOf'', ''__proto__'', ''toLocaleString'']"

text \<open>\<^verbatim>\<open>obj[key]\<close> on an object literal: an own property, an inherited one, or \<^verbatim>\<open>undefined\<close>.\<close>

datatype 'a property = Own 'a | Inherited string | Absent

definition get_property :: "(string \<times> 'a) list \<Rightarrow> string \<Rightarrow> 'a property" where
  "get_property obj key =
     (case map_of obj key of
        Some v \<Rightarrow> Own v
      | None \<Rightarrow> if key \<in> set Object_prototype then Inherited key else Absent)"

subsection \<open>The price matrix\<close>

record category_spec =
  providers :: "string list"
  classes :: "(string \<times> int) list"

definition PRICE_MATRIX :: "(string \<times> category_spec) list" where
  "PRICE_MATRIX =
    [(''Bus'', \<lparr>providers = [''Easy Coach'', ''Guardian''],
               classes = [(''Regular'', 1500), (''Premium'', 2500)]\<rparr>),
     (''Flight'', \<lparr>providers = [''Qatar Airways'', ''Kenya Airways''],
                  classes = [(''Economy'', 25000), (''Business'', 45000), (''First Class'', 70000)]\<rparr>),
     (''Train'', \<lparr>providers = [''SGR'', ''Electric Train''],
                 classes = [(''Economy'', 1000), (''Business'', 2000), (''First Class'', 3500)]\<rparr>)]"

subsection \<open>The ticket and its rendering\<close>

record route =
  origin :: string
  destination :: string

text \<open>The object \<^verbatim>\<open>ticketData\<close> of the submit handler, field by field.\<close>

record ticket =
  bookingId :: string
  passengerName :: string
  contactPhone :: string
  contactEmail :: string
  transportType :: string
  provider :: string
  classOrSeat :: string
  route :: route
  departDateTime :: string
  arriveDateTime :: string
  duration :: string
  distanceKm :: "int option"
  price :: price_value
  taxes :: js_number
  total :: total_value
  additionalNotes :: string
  mapLink :: string
  qrPayload :: string
  logoUrl :: string

subsection \<open>The browser\<close>

datatype 'a lib = Missing | Fails | Gives 'a

record clock =
  getTime :: int
  getFullYear :: int
  getMonth :: int
  getDate :: int

text \<open>
  What the platform and the third-party libraries answer. \<open>Date_parse\<close> is the time value
  of \<^verbatim>\<open>new Date(s)\<close> in milliseconds, \<open>None\<close> for an invalid date; \<open>formatKES\<close> is
  \<^verbatim>\<open>Intl.NumberFormat('en-KE', ...).format\<close>, its argument \<open>None\<close> for \<^verbatim>\<open>NaN\<close>;
  \<open>html2canvas\<close> gives the width and height of the captured bitmap and \<open>jspdf\<close> the
  width and height of the landscape page; each is \<open>Missing\<close> when the library is not
  loaded and \<open>Fails\<close> when its call throws or rejects.
\<close>

record env =
  now :: clock
  Date_parse :: "string \<Rightarrow> int option"
  toISOString :: "int \<Rightarrow> string"
  toLocaleString :: "int \<Rightarrow> string"
  formatKES :: "int option \<Rightarrow> string"
  protoText :: "string \<Rightarrow> string"
  location_href :: string
  html2canvas :: "(nat \<times> nat) lib"
  jspdf :: "(rat \<times> rat) lib"
  QRCode_ok :: bool
  has_ticketContainer :: bool
  has_toast :: bool
  popup_ok :: bool
  clipboard_ok :: bool
  storage_ok :: bool

datatype json = JNull | JNumber int | JString string | JObject "(string \<times> json) list"

text \<open>What a handler does to the world outside the page state, in order.\<close>

datatype effect =
    Alert string
  | Toast string
  | ConsoleError
  | ConsoleWarn
  | DownloadImage string
  | SaveDocument string rat rat rat rat
  | WindowPrint
  | PopupPrint "string option"
  | ClipboardWrite string
  | ScrollIntoView

text \<open>A \<^verbatim>\<open><select>\<close> drop-down: its options and its current value.\<close>

record select_el =
  sel_options :: "string list"
  sel_value :: string

text \<open>
  The page: the values of the form controls, the price display, the markup last assigned
  to \<^verbatim>\<open>innerHTML\<close> of the ticket container (\<open>None\<close> before any render), the variables
  \<^verbatim>\<open>container\<close>, \<^verbatim>\<open>currentData\<close> and \<^verbatim>\<open>qrInstance\<close> of the renderer, the session
  store and the log of effects.
\<close>

record page =
  passengerName_input :: string
  phone_input :: string
  email_input :: string
  origin_input :: string
  destination_input :: string
  startDate_input :: string
  endDate_input :: string
  transportEl :: string
  providerEl :: select_el
  classEl :: select_el
  priceDisplay :: string
  ticketContainer :: "string option"
  container :: bool
  currentData :: "ticket option"
  qrInstance :: "string option"
  export_hooked :: bool
  sessionStorage :: "string \<Rightarrow> json option"
  effects :: "effect list"

type_synonym 'a run = "(js_error + 'a) \<times> page"

subsection \<open>Pricing: \<^verbatim>\<open>populateOptions\<close>, \<^verbatim>\<open>getPrice\<close>, \<^verbatim>\<open>updatePrice\<close>\<close>

text \<open>\<^verbatim>\<open>el.innerHTML = ''\<close> on a drop-down removes its options; its value is then empty.\<close>

definition select_clear :: select_el where
  "select_clear = \<lparr>sel_options = [], sel_value = []\<rparr>"

text \<open>
  \<^verbatim>\<open>el.appendChild(new Option(p, p))\<close>: a drop-down with nothing selected selects the
  option it is given.
\<close>

definition select_append :: "string \<Rightarrow> select_el \<Rightarrow> select_el" where
  "select_append p s =
     \<lparr>sel_options = sel_options s @ [p],
      sel_value = (if sel_options s = [] then p else sel_value s)\<rparr>"

text \<open>The user picks an option of a drop-down.\<close>

definition select_choose :: "string \<Rightarrow> select_el \<Rightarrow> select_el" where
  "select_choose k s = (if k \<in> set (sel_options s) then s\<lparr>sel_value := k\<rparr> else s)"

definition getPrice :: "page \<Rightarrow> js_error + price_value" where
  "getPrice st =
     (let transport = transportEl st; cls = sel_value (classEl st) in
      if transport = [] \<or> cls = [] then Inr (Price 0)
      else case get_property PRICE_MATRIX transport of
        Absent \<Rightarrow> Inr (Price 0)
      | Inherited k \<Rightarrow> Inl TypeError
      | Own spec \<Rightarrow>
          (case get_property (classes spec) cls of
             Own n \<Rightarrow> Inr (Price n)
           | Inherited k \<Rightarrow> Inr (Inherited_value k)
           | Absent \<Rightarrow> Inr (Price 0)))"

definition updatePrice :: "env \<Rightarrow> page \<Rightarrow> unit run" where
  "updatePrice e st =
     (case getPrice st of
        Inl err \<Rightarrow> (Inl err, st)
      | Inr p \<Rightarrow>
          (Inr (),
           st\<lparr>priceDisplay :=
                (case p of
                   Price n \<Rightarrow> if n = 0 then ''KES 0'' else formatKES e (Some n)
                 | Inherited_value k \<Rightarrow> formatKES e None)\<rparr>))"

definition populateOptions :: "env \<Rightarrow> string \<Rightarrow> page \<Rightarrow> unit run" where
  "populateOptions e transport st =
     (let st1 = st\<lparr>providerEl := select_clear, classEl := select_clear\<rparr> in
      case get_property PRICE_MATRIX transport of
        Absent \<Rightarrow> (Inr (), st1)
      | Inherited k \<Rightarrow> (Inl TypeError, st1)
      | Own spec \<Rightarrow>
          updatePrice e
            (st1\<lparr>providerEl := fold select_append (providers spec) (providerEl st1),
                 classEl := fold select_append (map fst (classes spec)) (classEl st1)\<rparr>))"

text \<open>The \<^verbatim>\<open>change\<close> listeners: the user picks a transport category, or a class.\<close>

definition transport_change :: "env \<Rightarrow> string \<Rightarrow> page \<Rightarrow> unit run" where
  "transport_change e v st = populateOptions e v (st\<lparr>transportEl := v\<rparr>)"

definition class_change :: "env \<Rightarrow> string \<Rightarrow> page \<Rightarrow> unit run" where
  "class_change e k st = updatePrice e (st\<lparr>classEl := select_choose k (classEl st)\<rparr>)"

subsection \<open>Markup and its tokens\<close>

text \<open>
  What the browser makes of a string assigned to \<^verbatim>\<open>innerHTML\<close> starts with the
  tokenizer of the HTML Standard (section 13.2.5). Its states for character data, tags,
  attributes and comments are modelled, under the names of the standard and with the
  transitions of the standard; a transition that the standard words as reconsuming the
  character in another state is written out. The tokens are character tokens, start tags
  with their attributes, end tags and comments.

  Left out: the text of a comment (a comment shows nothing); character references
  (\<^verbatim>\<open>&amp;\<close> stays as written, which changes characters of a text and never its
  extent); the lowering of capitals in tag and attribute names (the template has none);
  \<^verbatim>\<open><!DOCTYPE\<close> and \<^verbatim>\<open><![CDATA[\<close>, read as the bogus comments they are outside
  foreign content; and the content models that the tree builder switches to inside
  \<^verbatim>\<open>script\<close>, \<^verbatim>\<open>style\<close>, \<^verbatim>\<open>textarea\<close> and \<^verbatim>\<open>title\<close> elements. The states between
  \<^verbatim>\<open><\<close> and \<^verbatim>\<open><!--\<close> inside a comment only report nesting errors and are left out
  as well.
\<close>

datatype token =
    Character char
  | StartTag string "(string \<times> string) list"
  | EndTag string
  | Comment

text \<open>The tag under construction: an end tag or not, its name, its attributes so far.\<close>

datatype tag = Tag bool string "(string \<times> string) list"

datatype tokenizer =
    Data
  | Tag_open
  | End_tag_open
  | Tag_name tag
  | Before_attribute_name tag
  | Attribute_name tag
  | After_attribute_name tag
  | Before_attribute_value tag
  | Attribute_value_double_quoted tag
  | Attribute_value_single_quoted tag
  | Attribute_value_unquoted tag
  | After_attribute_value_quoted tag
  | Self_closing_start_tag tag
  | Bogus_comment
  | Markup_declaration_open
  | Markup_declaration_dash
  | Comment_start
  | Comment_start_dash
  | Comment_state
  | Comment_end_dash
  | Comment_end
  | Comment_end_bang

text \<open>Tab, line feed, form feed and space; the letters of ASCII.\<close>

definition html_space :: "char \<Rightarrow> bool" where
  "html_space c \<longleftrightarrow> c \<in> set [CHR 0x09, CHR 0x0A, CHR 0x0C, CHR 0x20]"

definition ascii_alpha :: "char \<Rightarrow> bool" where
  "ascii_alpha c \<longleftrightarrow> c \<in> set ''abcdefghijklmnopqrstuvwxyzABCDEFGHIJKLMNOPQRSTUVWXYZ''"

text \<open>A character appended; the last attribute changed.\<close>

primrec snoc :: "'a list \<Rightarrow> 'a \<Rightarrow> 'a list" where
  "snoc [] y = [y]"
| "snoc (x # xs) y = x # snoc xs y"

primrec change_last :: "('a \<Rightarrow> 'a) \<Rightarrow> 'a list \<Rightarrow> 'a list" where
  "change_last f [] = []"
| "change_last f (x # xs) = (if xs = [] then [f x] else x # change_last f xs)"

fun emit_tag :: "tag \<Rightarrow> token" where
  "emit_tag (Tag is_end name attrs) = (if is_end then EndTag name else StartTag name attrs)"

fun name_char :: "char \<Rightarrow> tag \<Rightarrow> tag" where
  "name_char c (Tag is_end name attrs) = Tag is_end (snoc name c) attrs"

fun new_attribute :: "char \<Rightarrow> tag \<Rightarrow> tag" where
  "new_attribute c (Tag is_end name attrs) = Tag is_end name (snoc attrs ([c], []))"

fun attribute_name_char :: "char \<Rightarrow> tag \<Rightarrow> tag" where
  "attribute_name_char c (Tag is_end name attrs) =
     Tag is_end name (change_last (\<lambda>a. (snoc (fst a) c, snd a)) attrs)"

fun attribute_value_char :: "char \<Rightarrow> tag \<Rightarrow> tag" where
  "attribute_value_char c (Tag is_end name attrs) =
     Tag is_end name (change_last (\<lambda>a. (fst a, snoc (snd a) c)) attrs)"

text \<open>
  The data state, the comment state, the bogus comment state and the before attribute
  name state, which other states hand a character to.
\<close>

definition in_data :: "char \<Rightarrow> token list \<times> tokenizer" where
  "in_data c = (if c = CHR ''<'' then ([], Tag_open) else ([Character c], Data))"

definition in_comment :: "char \<Rightarrow> token list \<times> tokenizer" where
  "in_comment c = (if c = CHR ''-'' then ([], Comment_end_dash) else ([], Comment_state))"

definition in_bogus_comment :: "char \<Rightarrow> token list \<times> tokenizer" where
  "in_bogus_comment c = (if c = CHR ''>'' then ([Comment], Data) else ([], Bogus_comment))"

definition before_attribute_name :: "tag \<Rightarrow> char \<Rightarrow> token list \<times> tokenizer" where
  "before_attribute_name t c =
     (if html_space c then ([], Before_attribute_name t)
      else if c = CHR ''/'' then ([], Self_closing_start_tag t)
      else if c = CHR ''>'' then ([emit_tag t], Data)
      else ([], Attribute_name (new_attribute c t)))"

text \<open>One character consumed in a state: the tokens emitted and the next state.\<close>

fun step :: "tokenizer \<Rightarrow> char \<Rightarrow> token list \<times> tokenizer" where
  "step Data c = in_data c"
| "step Tag_open c =
     (if c = CHR ''!'' then ([], Markup_declaration_open)
      else if c = CHR ''/'' then ([], End_tag_open)
      else if ascii_alpha c then ([], Tag_name (Tag False [c] []))
      else if c = CHR ''?'' then ([], Bogus_comment)
      else (Character CHR ''<'' # fst (in_data c), snd (in_data c)))"
| "step End_tag_open c =
     (if ascii_alpha c then ([], Tag_name (Tag True [c] []))
      else if c = CHR ''>'' then ([], Data)
      else ([], Bogus_comment))"
| "step (Tag_name t) c =
     (if html_space c then ([], Before_attribute_name t)
      else if c = CHR ''/'' then ([], Self_closing_start_tag t)
      else if c = CHR ''>'' then ([emit_tag t], Data)
      else ([], Tag_name (name_char c t)))"
| "step (Before_attribute_name t) c = before_attribute_name t c"
| "step (Attribute_name t) c =
     (if html_space c then ([], After_attribute_name t)
      else if c = CHR ''/'' then ([], Self_closing_start_tag t)
      else if c = CHR ''>'' then ([emit_tag t], Data)
      else if c = CHR ''='' then ([], Before_attribute_value t)
      else ([], Attribute_name (attribute_name_char c t)))"
| "step (After_attribute_name t) c =
     (if html_space c then ([], After_attribute_name t)
      else if c = CHR ''/'' then ([], Self_closing_start_tag t)
      else if c = CHR ''='' then ([], Before_attribute_value t)
      else if c = CHR ''>'' then ([emit_tag t], Data)
      else ([], Attribute_name (new_attribute c t)))"
| "step (Before_attribute_value t) c =
     (if html_space c then ([], Before_attribute_value t)
      else if c = CHR 0x22 then ([], Attribute_value_double_quoted t)
      else if c = CHR 0x27 then ([], Attribute_value_single_quoted t)
      else if c = CHR ''>'' then ([emit_tag t], Data)
      else ([], Attribute_value_unquoted (attribute_value_char c t)))"
| "step (Attribute_value_double_quoted t) c =
     (if c = CHR 0x22 then ([], After_attribute_value_quoted t)
      else ([], Attribute_value_double_quoted (attribute_value_char c t)))"
| "step (Attribute_value_single_quoted t) c =
     (if c = CHR 0x27 then ([], After_attribute_value_quoted t)
      else ([], Attribute_value_single_quoted (attribute_value_char c t)))"
| "step (Attribute_value_unquoted t) c =
     (if html_space c then ([], Before_attribute_name t)
      else if c = CHR ''>'' then ([emit_tag t], Data)
      else ([], Attribute_value_unquoted (attribute_value_char c t)))"
| "step (After_attribute_value_quoted t) c = before_attribute_name t c"
| "step (Self_closing_start_tag t) c = before_attribute_name t c"
| "step Bogus_comment c = in_bogus_comment c"
| "step Markup_declaration_open c =
     (if c = CHR ''-'' then ([], Markup_declaration_dash) else in_bogus_comment c)"
| "step Markup_declaration_dash c =
     (if c = CHR ''-'' then ([], Comment_start) else in_bogus_comment c)"
| "step Comment_start c =
     (if c = CHR ''-'' then ([], Comment_start_dash)
      else if c = CHR ''>'' then ([Comment], Data)
      else in_comment c)"
| "step Comment_start_dash c =
     (if c = CHR ''-'' then ([], Comment_end)
      else if c = CHR ''>'' then ([Comment], Data)
      else in_comment c)"
| "step Comment_state c = in_comment c"
| "step Comment_end_dash c = (if c = CHR ''-'' then ([], Comment_end) else in_comment c)"
| "step Comment_end c =
     (if c = CHR ''>'' then ([Comment], Data)
      else if c = CHR ''!'' then ([], Comment_end_bang)
      else if c = CHR ''-'' then ([], Comment_end)
      else in_comment c)"
| "step Comment_end_bang c =
     (if c = CHR ''-'' then ([], Comment_end_dash)
      else if c = CHR ''>'' then ([Comment], Data)
      else in_comment c)"

text \<open>
  The end of the input: a pending \<^verbatim>\<open><\<close> is text, an open comment is emitted, an
  unfinished tag is dropped.
\<close>

definition at_end :: "tokenizer \<Rightarrow> token list" where
  "at_end s =
     (if s = Tag_open then [Character CHR ''<'']
      else if s = End_tag_open then [Character CHR ''<'', Character CHR ''/'']
      else if s \<in> set [Bogus_comment, Markup_declaration_open, Markup_declaration_dash,
                        Comment_start, Comment_start_dash, Comment_state, Comment_end_dash,
                        Comment_end, Comment_end_bang]
      then [Comment]
      else [])"

primrec tokenize_from :: "tokenizer \<Rightarrow> string \<Rightarrow> token list" where
  "tokenize_from s [] = at_end s"
| "tokenize_from s (c # r) = fst (step s c) @ tokenize_from (snd (step s c)) r"

definition tokenize :: "string \<Rightarrow> token list" where
  "tokenize markup = tokenize_from Data markup"

text \<open>The state reached and the tokens emitted after a part of the input.\<close>

primrec state_after :: "tokenizer \<Rightarrow> string \<Rightarrow> tokenizer" where
  "state_after s [] = s"
| "state_after s (c # r) = state_after (snd (step s c)) r"

primrec emitted :: "tokenizer \<Rightarrow> string \<Rightarrow> token list" where
  "emitted s [] = []"
| "emitted s (c # r) = fst (step s c) @ emitted (snd (step s c)) r"

text \<open>
  \<^verbatim>\<open>document.getElementById(i)\<close> within the markup of the container: there is a start
  tag whose \<^verbatim>\<open>id\<close> attribute is \<open>i\<close>. (Of an attribute given twice the first counts.)
\<close>

definition has_element_id :: "string \<Rightarrow> string \<Rightarrow> bool" where
  "has_element_id i markup \<longleftrightarrow>
     list_ex (\<lambda>t. case t of StartTag n attrs \<Rightarrow> map_of attrs ''id'' = Some i | _ \<Rightarrow> False)
       (tokenize markup)"

subsection \<open>The ticket renderer\<close>

definition formatDate :: "env \<Rightarrow> string \<Rightarrow> string" where
  "formatDate e isoText =
     (if isoText = [] then ''TBA''
      else case Date_parse e isoText of
        None \<Rightarrow> ''Invalid Date''
      | Some t \<Rightarrow> toLocaleString e t)"

definition computeDuration :: "env \<Rightarrow> string \<Rightarrow> string \<Rightarrow> string" where
  "computeDuration e startIso endIso =
     (if startIso = [] \<or> endIso = [] then []
      else case (Date_parse e endIso, Date_parse e startIso) of
        (Some t1, Some t0) \<Rightarrow>
          (let mins = Math_round (of_int (t1 - t0) / (1000 * 60)) in
           if mins \<le> 0 then []
           else show_int (mins div 60) @ ''h '' @ show_int (mins mod 60) @ ''m'')
      | _ \<Rightarrow> [])"

text \<open>
  \<^verbatim>\<open>fmtKES\<close> prints \<^verbatim>\<open>KES N/A\<close> for every argument that \<^verbatim>\<open>isNaN\<close> accepts: here
  \<^verbatim>\<open>NaN\<close> itself, an inherited function or object, and the text made from one. Its
  argument is the number the value stands for, if any.
\<close>

definition fmtKES :: "env \<Rightarrow> int option \<Rightarrow> string" where
  "fmtKES e n = (case n of None \<Rightarrow> ''KES N/A'' | Some k \<Rightarrow> formatKES e (Some k))"

fun price_number :: "price_value \<Rightarrow> int option" where
  "price_number (Price n) = Some n"
| "price_number (Inherited_value k) = None"

fun total_number :: "total_value \<Rightarrow> int option" where
  "total_number (Total n) = Some n"
| "total_number Total_NaN = None"
| "total_number (Total_text k) = None"

text \<open>\<^verbatim>\<open>data.taxes || 0\<close>: \<^verbatim>\<open>NaN\<close> is falsy.\<close>

fun taxes_or_zero :: "js_number \<Rightarrow> int option" where
  "taxes_or_zero (Num n) = Some n"
| "taxes_or_zero NaN = Some 0"

definition em_dash :: string where
  "em_dash = [CHR 0xE2, CHR 0x80, CHR 0x94]"

definition right_arrow :: string where
  "right_arrow = [CHR 0xE2, CHR 0x86, CHR 0x92]"

text \<open>\<^verbatim>\<open>a || b\<close> on strings.\<close>

definition or_else :: "string \<Rightarrow> string \<Rightarrow> string" where
  "or_else a b = (if a = [] then b else a)"

text \<open>
  \<^verbatim>\<open>buildHtml\<close>: the template literal, line by line, with its interpolations. A ticket
  built by the submit handler always has its \<^verbatim>\<open>total\<close> and its \<^verbatim>\<open>route\<close>, so
  \<^verbatim>\<open>data.total ?? ...\<close> is \<^verbatim>\<open>data.total\<close> and the route tests succeed. No field is
  escaped.
\<close>

definition buildHtml :: "env \<Rightarrow> ticket \<Rightarrow> string" where
  \<open>buildHtml e data =
     (let depart = formatDate e (departDateTime data);
          arrive = (if arriveDateTime data = [] then ''TBA'' else formatDate e (arriveDateTime data));
          duration_text =
            or_else (or_else (duration data)
                       (computeDuration e (departDateTime data) (arriveDateTime data))) ''TBA'';
          logo =
            (if logoUrl data = []
             then ''<svg width="86" height="28" viewBox="0 0 300 68" role="img" aria-hidden="true"><text x="0" y="20" font-size="18" font-weight="700" fill="var(--text)">Harmony</text><text x="100" y="20" font-size="14" fill="var(--accent)">Travels</text></svg>''
             else ''<img src="'' @ logoUrl data @ ''" alt="Logo" loading="lazy">'');
          provider_text = or_else (provider data) ''Provider'';
          transportType_text = or_else (transportType data) ''Transport'';
          classOrSeat_text = or_else (classOrSeat data) ''Class / Seat'';
          origin_text = or_else (origin (route data)) ''Origin'';
          destination_text = or_else (destination (route data)) ''Destination'';
          distance =
            (case distanceKm data of
               None \<Rightarrow> em_dash
             | Some n \<Rightarrow> if n = 0 then em_dash else show_int n @ '' km'')
      in
          ''\<newline>''
        @ ''      <div class="ticket-left" role="article" aria-label="Ticket stub">\<newline>''
        @ ''        <div class="ticket-logo">'' @ logo @ ''<div class="brand-title">Harmony Travels</div></div>\<newline>''
        @ ''        <div class="small-muted">Booking</div>\<newline>''
        @ ''        <div style="font-weight:800;margin-top:6px">'' @ or_else (bookingId data) ''HT-TBA'' @ ''</div>\<newline>''
        @ ''        <div class="small-muted" style="margin-top:6px">Passenger</div>\<newline>''
        @ ''        <div style="font-weight:700">'' @ or_else (passengerName data) ''Passenger Name'' @ ''</div>\<newline>''
        @ ''\<newline>''
        @ ''        <div style="margin-top:8px" class="small-muted">Contact</div>\<newline>''
        @ ''        <div class="small-muted">'' @ contactPhone data @ ''<br>'' @ contactEmail data @ ''</div>\<newline>''
        @ ''\<newline>''
        @ ''        <div class="qr-wrap" id="ticket-qr-container" aria-hidden="false"></div>\<newline>''
        @ ''\<newline>''
        @ ''        <div style="margin-top:8px" class="small-muted">Route</div>\<newline>''
        @ ''        <div style="font-weight:700">'' @ origin_text @ '' '' @ right_arrow @ '' '' @ destination_text @ ''</div>\<newline>''
        @ ''\<newline>''
        @ ''        <div class="small-muted" style="margin-top:6px">Distance</div>\<newline>''
        @ ''        <div class="small-muted">'' @ distance @ ''</div>\<newline>''
        @ ''      </div>\<newline>''
        @ ''\<newline>''
        @ ''      <div class="ticket-right">\<newline>''
        @ ''        <div class="row">\<newline>''
        @ ''          <div>\<newline>''
        @ ''            <div class="small-muted">Trip</div>\<newline>''
        @ ''            <div style="font-weight:900;font-size:1.15rem">'' @ transportType_text @ '' '' @ em_dash @ '' '' @ provider_text @ ''</div>\<newline>''
        @ ''            <div class="badge-type">'' @ classOrSeat_text @ ''</div>\<newline>''
        @ ''          </div>\<newline>''
        @ ''          <div style="text-align:right">\<newline>''
        @ ''            <div class="small-muted">Status</div>\<newline>''
        @ ''            <div style="font-weight:800;color:var(--accent)">CONFIRMED</div>\<newline>''
        @ ''          </div>\<newline>''
        @ ''        </div>\<newline>''
        @ ''\<newline>''
        @ ''        <div class="details-grid" aria-hidden="false">\<newline>''
        @ ''          <div class="detail-item">\<newline>''
        @ ''            <div class="detail-label">Depart</div>\<newline>''
        @ ''            <div class="detail-value">'' @ depart @ ''</div>\<newline>''
        @ ''          </div>\<newline>''
        @ ''          <div class="detail-item">\<newline>''
        @ ''            <div class="detail-label">Arrive</div>\<newline>''
        @ ''            <div class="detail-value">'' @ arrive @ ''</div>\<newline>''
        @ ''          </div>\<newline>''
        @ ''\<newline>''
        @ ''          <div class="detail-item">\<newline>''
        @ ''            <div class="detail-label">Duration</div>\<newline>''
        @ ''            <div class="detail-value">'' @ duration_text @ ''</div>\<newline>''
        @ ''          </div>\<newline>''
        @ ''          <div class="detail-item">\<newline>''
        @ ''            <div class="detail-label">Seat / Class</div>\<newline>''
        @ ''            <div class="detail-value">'' @ classOrSeat_text @ ''</div>\<newline>''
        @ ''          </div>\<newline>''
        @ ''\<newline>''
        @ ''          <div class="detail-item">\<newline>''
        @ ''            <div class="detail-label">Price</div>\<newline>''
        @ ''            <div class="detail-value">'' @ fmtKES e (price_number (price data)) @ ''</div>\<newline>''
        @ ''          </div>\<newline>''
        @ ''          <div class="detail-item">\<newline>''
        @ ''            <div class="detail-label">Taxes</div>\<newline>''
        @ ''            <div class="detail-value">'' @ fmtKES e (taxes_or_zero (taxes data)) @ ''</div>\<newline>''
        @ ''          </div>\<newline>''
        @ ''        </div>\<newline>''
        @ ''\<newline>''
        @ ''        <div class="price-box">\<newline>''
        @ ''          <div class="small-muted">Total (Incl. taxes)</div>\<newline>''
        @ ''          <div class="total">'' @ fmtKES e (total_number (total data)) @ ''</div>\<newline>''
        @ ''        </div>\<newline>''
        @ ''\<newline>''
        @ ''        <div class="notes">\<newline>''
        @ ''          <strong>Notes:</strong> '' @ or_else (additionalNotes data) ''Please bring your ID. Baggage rules apply.'' @ ''\<newline>''
        @ ''          ''
            @ (if mapLink data = [] then []
                         else ''<div style="margin-top:8px"><a href="'' @ mapLink data
                                @ ''" target="_blank" rel="noopener" class="small-muted">Open route in Google Maps</a></div>'')
            @ ''\<newline>''
        @ ''        </div>\<newline>''
        @ ''\<newline>''
        @ ''        <div class="row" style="margin-top:8px">\<newline>''
        @ ''          <div class="small-muted">Issued by Harmony Travels</div>\<newline>''
        @ ''          <div class="small-muted">Ref: '' @ or_else (bookingId data) em_dash @ ''</div>\<newline>''
        @ ''        </div>\<newline>''
        @ ''      </div>\<newline>''
        @ ''    '')\<close>

definition emit :: "effect list \<Rightarrow> page \<Rightarrow> page" where
  "emit fx st = st\<lparr>effects := effects st @ fx\<rparr>"

text \<open>
  \<^verbatim>\<open>renderQR\<close> looks the region up by its id and returns when there is none; else the
  region is emptied, then a code is drawn; a failure of the QR library is logged and
  leaves the variable \<^verbatim>\<open>qrInstance\<close> as it was. (No element outside the container has
  that id.)
\<close>

definition renderQR :: "env \<Rightarrow> string \<Rightarrow> page \<Rightarrow> page" where
  "renderQR e qrPayload_text st =
     (if \<not> (case ticketContainer st of
                None \<Rightarrow> False
              | Some markup \<Rightarrow> has_element_id ''ticket-qr-container'' markup)
      then st
      else if QRCode_ok e then st\<lparr>qrInstance := Some (or_else qrPayload_text (location_href e))\<rparr>
      else emit [ConsoleWarn] st)"

definition showToast :: "env \<Rightarrow> string \<Rightarrow> page \<Rightarrow> page" where
  "showToast e msg st = (if has_toast e then emit [Toast msg] st else st)"

definition init :: "env \<Rightarrow> ticket \<Rightarrow> page \<Rightarrow> unit run" where
  "init e data st =
     (if \<not> has_ticketContainer e then (Inl (Error ''Container not found''), st\<lparr>container := False\<rparr>)
      else
        (Inr (),
         renderQR e (or_else (qrPayload data) (''Booking:'' @ or_else (bookingId data) ''TBA''))
           (st\<lparr>container := True, currentData := Some data,
               ticketContainer := Some (buildHtml e data)\<rparr>)))"

subsection \<open>JSON and the session store\<close>

text \<open>
  A stored text is represented by the JSON document it denotes. \<^verbatim>\<open>JSON.stringify\<close> maps
  a value to its document: a member whose value is \<^verbatim>\<open>undefined\<close> or a function is left
  out, \<^verbatim>\<open>NaN\<close> becomes \<^verbatim>\<open>null\<close>. \<^verbatim>\<open>JSON.parse\<close> maps a document back to a value.
\<close>

datatype js_data =
    DUndefined
  | DNull
  | DNumber int
  | DNaN
  | DString string
  | DFunction string
  | DObject "(string \<times> js_data) list"

fun JSON_stringify :: "js_data \<Rightarrow> json option"
  and JSON_members :: "(string \<times> js_data) list \<Rightarrow> (string \<times> json) list" where
  "JSON_stringify DUndefined = None"
| "JSON_stringify DNull = Some JNull"
| "JSON_stringify (DNumber n) = Some (JNumber n)"
| "JSON_stringify DNaN = Some JNull"
| "JSON_stringify (DString s) = Some (JString s)"
| "JSON_stringify (DFunction k) = None"
| "JSON_stringify (DObject ms) = Some (JObject (JSON_members ms))"
| "JSON_members [] = []"
| "JSON_members (m # ms) =
     (case JSON_stringify (snd m) of
        None \<Rightarrow> JSON_members ms
      | Some j \<Rightarrow> (fst m, j) # JSON_members ms)"



fun price_data :: "price_value \<Rightarrow> js_data" where
  "price_data (Price n) = DNumber n"
| "price_data (Inherited_value k) = (if k = ''__proto__'' then DObject [] else DFunction k)"

fun taxes_data :: "js_number \<Rightarrow> js_data" where
  "taxes_data (Num n) = DNumber n"
| "taxes_data NaN = DNaN"

fun total_data :: "env \<Rightarrow> total_value \<Rightarrow> js_data" where
  "total_data e (Total n) = DNumber n"
| "total_data e Total_NaN = DNaN"
| "total_data e (Total_text k) = DString (protoText e k @ ''NaN'')"

text \<open>The object literal \<^verbatim>\<open>ticketData\<close>, its members in the order of the source.\<close>

definition ticketData_members :: "env \<Rightarrow> ticket \<Rightarrow> (string \<times> js_data) list" where
  "ticketData_members e d =
      [(''bookingId'', DString (bookingId d)),
       (''passengerName'', DString (passengerName d)),
       (''contactPhone'', DString (contactPhone d)),
       (''contactEmail'', DString (contactEmail d)),
       (''transportType'', DString (transportType d)),
       (''provider'', DString (provider d)),
       (''classOrSeat'', DString (classOrSeat d)),
       (''route'', DObject [(''origin'', DString (origin (route d))),
                            (''destination'', DString (destination (route d)))]),
       (''departDateTime'', DString (departDateTime d)),
       (''arriveDateTime'', DString (arriveDateTime d)),
       (''duration'', DString (duration d)),
       (''distanceKm'', (case distanceKm d of None \<Rightarrow> DUndefined | Some n \<Rightarrow> DNumber n)),
       (''price'', price_data (price d)),
       (''taxes'', taxes_data (taxes d)),
       (''total'', total_data e (total d)),
       (''additionalNotes'', DString (additionalNotes d)),
       (''mapLink'', DString (mapLink d)),
       (''qrPayload'', DString (qrPayload d)),
       (''logoUrl'', DString (logoUrl d))]"

definition ticketData_object :: "env \<Rightarrow> ticket \<Rightarrow> js_data" where
  "ticketData_object e d = DObject (ticketData_members e d)"

subsection \<open>The date-time controls of the form\<close>

text \<open>
  Modelled from the spec: the markup of the booking form is not among the sources. The
  specification lists form fields for the ``depart date/time'' and the ``arrive
  date/time'', and the handler hands their values to \<^verbatim>\<open>new Date(..).toISOString()\<close>
  without a guard; they are taken to be date-time controls
  (\<^verbatim>\<open><input type="datetime-local">\<close>). The browser keeps the value of such a control
  sanitised: whatever is entered, the value is a valid local date and time in its
  normalised form, or the empty string.
\<close>

definition is_digit :: "char \<Rightarrow> bool" where
  "is_digit c \<longleftrightarrow> c \<in> set ''0123456789''"

definition digit_value :: "char \<Rightarrow> nat" where
  "digit_value c = length (takeWhile (\<lambda>d. d \<noteq> c) ''0123456789'')"

definition decimal :: "string \<Rightarrow> nat" where
  "decimal s = foldl (\<lambda>n c. 10 * n + digit_value c) 0 s"

definition days_in_month :: "nat \<Rightarrow> nat \<Rightarrow> nat" where
  "days_in_month y m =
     (if m = 2 then (if y mod 400 = 0 \<or> (y mod 4 = 0 \<and> y mod 100 \<noteq> 0) then 29 else 28)
      else if m \<in> set [4, 6, 9, 11] then 30
      else 31)"

text \<open>A year of four or more digits, above 0, then \<^verbatim>\<open>-MM-DD\<close> with a day of that month.\<close>

definition valid_date_string :: "string \<Rightarrow> bool" where
  "valid_date_string s \<longleftrightarrow>
     (let y = takeWhile is_digit s in
      4 \<le> length y \<and> 0 < decimal y \<and>
      (case dropWhile is_digit s of
         [h1, m1, m2, h2, d1, d2] \<Rightarrow>
            h1 = CHR ''-'' \<and> h2 = CHR ''-'' \<and> list_all is_digit [m1, m2, d1, d2]
          \<and> 1 \<le> decimal [m1, m2] \<and> decimal [m1, m2] \<le> 12
          \<and> 1 \<le> decimal [d1, d2]
          \<and> decimal [d1, d2] \<le> days_in_month (decimal y) (decimal [m1, m2])
       | _ \<Rightarrow> False))"

text \<open>\<^verbatim>\<open>HH:MM\<close>, then optionally \<^verbatim>\<open>:SS\<close>, then optionally a fraction of one to three digits.\<close>

definition valid_time_string :: "string \<Rightarrow> bool" where
  "valid_time_string t \<longleftrightarrow>
     (case t of
        h1 # h2 # c1 # m1 # m2 # rest \<Rightarrow>
           list_all is_digit [h1, h2, m1, m2] \<and> c1 = CHR '':''
         \<and> decimal [h1, h2] \<le> 23 \<and> decimal [m1, m2] \<le> 59
         \<and> (case rest of
               [] \<Rightarrow> True
             | c2 # s1 # s2 # fraction \<Rightarrow>
                  c2 = CHR '':'' \<and> list_all is_digit [s1, s2] \<and> decimal [s1, s2] \<le> 59
                \<and> (case fraction of
                      [] \<Rightarrow> True
                    | dot # f \<Rightarrow>
                        dot = CHR ''.'' \<and> f \<noteq> [] \<and> length f \<le> 3 \<and> list_all is_digit f)
             | _ \<Rightarrow> False)
      | _ \<Rightarrow> False)"

text \<open>The date and the time of a text, on either side of its first \<^verbatim>\<open>T\<close> or space.\<close>

definition date_time_parts :: "string \<Rightarrow> string \<times> string" where
  "date_time_parts s =
     (takeWhile (\<lambda>c. c \<noteq> CHR ''T'' \<and> c \<noteq> CHR '' '') s,
      drop 1 (dropWhile (\<lambda>c. c \<noteq> CHR ''T'' \<and> c \<noteq> CHR '' '') s))"

definition valid_local_date_time :: "string \<Rightarrow> bool" where
  "valid_local_date_time s \<longleftrightarrow>
     valid_date_string (fst (date_time_parts s)) \<and> valid_time_string (snd (date_time_parts s))"

text \<open>The shortest text of a valid time: no zero seconds, no zeros at the end of the fraction.\<close>

definition normalized_time :: "string \<Rightarrow> string" where
  "normalized_time t =
     (let seconds = take 2 (drop 6 t);
          fraction = rev (dropWhile (\<lambda>c. c = CHR ''0'') (rev (drop 9 t)))
      in if fraction \<noteq> [] then take 8 t @ ''.'' @ fraction
         else if seconds = [] \<or> seconds = ''00'' then take 5 t
         else take 8 t)"

text \<open>The value of a date-time control after the text \<open>typed\<close> has been entered into it.\<close>

definition datetime_local_value :: "string \<Rightarrow> string" where
  "datetime_local_value typed =
     (if valid_local_date_time typed
      then fst (date_time_parts typed) @ ''T'' @ normalized_time (snd (date_time_parts typed))
      else [])"


subsection \<open>The submit handler\<close>

definition make_bookingId :: "clock \<Rightarrow> string" where
  "make_bookingId c =
     ''HT-'' @ show_int (getFullYear c) @ padStart2 (show_int (getMonth c + 1))
       @ padStart2 (show_int (getDate c)) @ ''-'' @ slice_last6 (show_int (getTime c))"

text \<open>\<^verbatim>\<open>Math.round(price * 0.05)\<close>; an inherited value times a number is \<^verbatim>\<open>NaN\<close>.\<close>

fun tax_of :: "price_value \<Rightarrow> js_number" where
  "tax_of (Price p) = Num (Math_round (of_int p * (5 / 100)))"
| "tax_of (Inherited_value k) = NaN"

text \<open>
  \<^verbatim>\<open>price + taxes\<close>. The tax of an inherited value is \<^verbatim>\<open>NaN\<close>, and the sum of the two
  is the concatenation of their texts.
\<close>

fun total_of :: "price_value \<Rightarrow> js_number \<Rightarrow> total_value" where
  "total_of (Price p) (Num t) = Total (p + t)"
| "total_of (Price p) NaN = Total_NaN"
| "total_of (Inherited_value k) t = Total_text k"

definition hex_char :: "nat \<Rightarrow> char" where
  "hex_char d = ''0123456789ABCDEF'' ! (d mod 16)"

definition uri_unreserved :: "char \<Rightarrow> bool" where
  "uri_unreserved c \<longleftrightarrow>
     c \<in> set ''ABCDEFGHIJKLMNOPQRSTUVWXYZabcdefghijklmnopqrstuvwxyz0123456789-_.!~*'()''"

definition encodeURIComponent :: "string \<Rightarrow> string" where
  "encodeURIComponent s =
     concat (map (\<lambda>c. if uri_unreserved c then [c]
                       else [CHR ''%'', hex_char (of_char c div 16), hex_char (of_char c mod 16)]) s)"

definition required_fields_alert :: string where
  "required_fields_alert = ''Please fill required fields (name, phone, email, depart date).''"

text \<open>
  Lines 335 to 363 of the handler: the booking id, the price with its tax and total, and
  the object literal. \<^verbatim>\<open>getPrice\<close> may throw, and \<^verbatim>\<open>toISOString\<close> throws a
  \<^verbatim>\<open>RangeError\<close> on an invalid date.
\<close>

definition build_ticketData :: "env \<Rightarrow> page \<Rightarrow> js_error + ticket" where
  "build_ticketData e st =
     (let origin_v = or_else (origin_input st) ''Nairobi'';
          destination_v = or_else (destination_input st) ''TBA'';
          startDate = startDate_input st;
          endDate = endDate_input st;
          bookingId_v = make_bookingId (now e)
      in
      case getPrice st of
        Inl err \<Rightarrow> Inl err
      | Inr price_v \<Rightarrow>
          (case Date_parse e startDate of
             None \<Rightarrow> Inl RangeError
           | Some t0 \<Rightarrow>
               (case (if endDate = [] then Some []
                      else map_option (toISOString e) (Date_parse e endDate)) of
                  None \<Rightarrow> Inl RangeError
                | Some arrive \<Rightarrow>
                    Inr \<lparr>bookingId = bookingId_v,
                         passengerName = trim (passengerName_input st),
                         contactPhone = trim (phone_input st),
                         contactEmail = trim (email_input st),
                         transportType = transportEl st,
                         provider = sel_value (providerEl st),
                         classOrSeat = sel_value (classEl st),
                         route = \<lparr>origin = origin_v, destination = destination_v\<rparr>,
                         departDateTime = toISOString e t0,
                         arriveDateTime = arrive,
                         duration = [],
                         distanceKm = None,
                         price = price_v,
                         taxes = tax_of price_v,
                         total = total_of price_v (tax_of price_v),
                         additionalNotes = ''Auto-generated ticket. Please arrive on time.'',
                         mapLink = ''https://www.google.com/maps/dir/?api=1&origin=''
                                     @ encodeURIComponent origin_v @ ''&destination=''
                                     @ encodeURIComponent destination_v,
                         qrPayload = ''https://harmonytravels.example/verify/'' @ bookingId_v,
                         logoUrl = []\<rparr>)))"

text \<open>
  Lines 369 to 383: scrolling, the export buttons, the confirmation toast (its element
  is dereferenced without a test) and the write to the session store inside
  \<^verbatim>\<open>try\<close>/\<^verbatim>\<open>catch\<close>.
\<close>

definition confirmation_toast :: "string \<Rightarrow> string" where
  "confirmation_toast id_text =
     ''Booking '' @ id_text @ '' created '' @ em_dash @ '' ticket ready''"

definition storage_key :: "ticket \<Rightarrow> string" where
  "storage_key d = ''booking_'' @ bookingId d"

definition store_ticket :: "env \<Rightarrow> ticket \<Rightarrow> page \<Rightarrow> page" where
  "store_ticket e d st =
     (if storage_ok e
      then st\<lparr>sessionStorage :=
                fun_upd (sessionStorage st) (storage_key d)
                  (JSON_stringify (ticketData_object e d))\<rparr>
      else st)"

definition after_render :: "env \<Rightarrow> ticket \<Rightarrow> page \<Rightarrow> (ticket option) run" where
  "after_render e d st =
     (let st2 = (emit [ScrollIntoView] st)\<lparr>export_hooked := True\<rparr> in
      if \<not> has_toast e then (Inl TypeError, st2)
      else (Inr (Some d), store_ticket e d (emit [Toast (confirmation_toast (bookingId d))] st2)))"

text \<open>
  The listener of the form's \<^verbatim>\<open>submit\<close> event. It returns \<open>None\<close> when it stops at the
  validation alert and the ticket it built when it runs to its end; an exception that
  leaves the listener is the \<open>Inl\<close> result. The page state is returned as the listener
  leaves it.
\<close>

definition submit :: "env \<Rightarrow> page \<Rightarrow> (ticket option) run" where
  "submit e st =
     (if trim (passengerName_input st) = [] \<or> trim (phone_input st) = []
         \<or> trim (email_input st) = [] \<or> startDate_input st = []
      then (Inr None, emit [Alert required_fields_alert] st)
      else case build_ticketData e st of
        Inl err \<Rightarrow> (Inl err, st)
      | Inr ticketData \<Rightarrow>
          (case fst (init e ticketData st) of
             Inl err \<Rightarrow> (Inl err, snd (init e ticketData st))
           | Inr u \<Rightarrow> after_render e ticketData (snd (init e ticketData st))))"

subsection \<open>The export operations\<close>

lemma trimStart_with_shorter:
  "leading_ws ws s = Some w \<Longrightarrow> length (trimStart_with ws s) < length s"
proof (induction ws s arbitrary: w rule: trimStart_with.induct)
  case (1 ws s)
  from "1.prems" have w: "w \<noteq> []" "length w \<le> length s"
    using leading_ws_Some by blast+
  then have less: "length (drop (length w) s) < length s"
    by (cases w) auto
  have unfold: "trimStart_with ws s = trimStart_with ws (drop (length w) s)"
    using "1.prems" by (simp add: trimStart_with.simps [of ws s])
  show ?case
  proof (cases "leading_ws ws (drop (length w) s)")
    case None
    then have "trimStart_with ws (drop (length w) s) = drop (length w) s"
      by (simp add: trimStart_with.simps [of ws "drop (length w) s"])
    with unfold less show ?thesis by simp
  next
    case (Some w')
    from "1.IH" [OF "1.prems" Some]
    have "length (trimStart_with ws (drop (length w) s)) < length (drop (length w) s)" .
    with unfold less show ?thesis by simp
  qed
qed

text \<open>\<^verbatim>\<open>s.replace(/\s+/g, '_')\<close>: every run of white space becomes one underscore.\<close>

function replace_ws :: "string \<Rightarrow> string" where
  "replace_ws [] = []"
| "replace_ws (c # s) =
     (case leading_ws js_whitespace (c # s) of
        Some w \<Rightarrow> CHR ''_'' # replace_ws (trimStart_with js_whitespace (c # s))
      | None \<Rightarrow> c # replace_ws s)"
  by pat_completeness auto
termination
proof (relation "measure length")
  show "wf (measure length)" by simp
next
  fix c :: char and s w :: string
  assume "leading_ws js_whitespace (c # s) = Some w"
  then have "length (trimStart_with js_whitespace (c # s)) < length (c # s)"
    by (rule trimStart_with_shorter)
  then show "(trimStart_with js_whitespace (c # s), c # s) \<in> measure length"
    by simp
next
  fix c :: char and s :: string
  show "(s, c # s) \<in> measure length" by simp
qed

declare replace_ws.simps [simp del]

definition file_id :: "ticket \<Rightarrow> string" where
  "file_id d = (if bookingId d = [] then ''ticket'' else replace_ws (bookingId d))"

definition png_name :: "ticket \<Rightarrow> string" where
  "png_name d = ''HarmonyTravels_Ticket_'' @ file_id d @ ''.png''"

definition pdf_name :: "ticket \<Rightarrow> string" where
  "pdf_name d = ''HarmonyTravels_Ticket_'' @ file_id d @ ''.pdf''"

definition captureToCanvas :: "env \<Rightarrow> js_error + (nat \<times> nat)" where
  "captureToCanvas e =
     (if \<not> has_ticketContainer e then Inl (Error ''Element required'')
      else case html2canvas e of
        Missing \<Rightarrow> Inl (Error ''html2canvas missing'')
      | Fails \<Rightarrow> Inl (Error ''html2canvas failed'')
      | Gives canvas \<Rightarrow> Inr canvas)"

text \<open>
  \<^verbatim>\<open>downloadPNG\<close>: everything happens inside \<^verbatim>\<open>try\<close>; reading \<^verbatim>\<open>currentData.bookingId\<close>
  throws a \<^verbatim>\<open>TypeError\<close> while \<^verbatim>\<open>currentData\<close> is \<^verbatim>\<open>null\<close>, and the handler of
  \<^verbatim>\<open>catch\<close> logs and alerts.
\<close>

definition downloadPNG :: "env \<Rightarrow> page \<Rightarrow> unit run" where
  "downloadPNG e st =
     (case captureToCanvas e of
        Inl err \<Rightarrow> (Inr (), emit [ConsoleError, Alert ''PNG generation failed.''] st)
      | Inr canvas \<Rightarrow>
          (case currentData st of
             None \<Rightarrow> (Inr (), emit [ConsoleError, Alert ''PNG generation failed.''] st)
           | Some d \<Rightarrow>
               (Inr (),
                showToast e ''PNG downloaded''
                  (emit [DownloadImage (png_name d)] st))))"

text \<open>
  The placement of the image on the page: full width, or full height when that would be
  too high, centred. A bitmap with no pixels has no image properties to read (that call
  throws), so there is no placement for it.
\<close>

definition fit_size :: "rat \<times> rat \<Rightarrow> nat \<times> nat \<Rightarrow> rat \<times> rat" where
  "fit_size pageSize img =
     (let pageWidth = fst pageSize; pageHeight = snd pageSize;
          width = of_nat (fst img); height = of_nat (snd img);
          w0 = pageWidth;
          h0 = (height / width) * w0
      in if h0 > pageHeight then ((width / height) * pageHeight, pageHeight) else (w0, h0))"

definition fit_image :: "rat \<times> rat \<Rightarrow> nat \<times> nat \<Rightarrow> (rat \<times> rat \<times> rat \<times> rat) option" where
  "fit_image pageSize img =
     (if fst img = 0 \<or> snd img = 0 then None
      else
        let w = fst (fit_size pageSize img);
            h = snd (fit_size pageSize img);
            x = (fst pageSize - w) / 2;
            y = (snd pageSize - h) / 2
        in Some (x, y, w, h))"

text \<open>
  \<^verbatim>\<open>downloadPDF\<close>: the guard \<^verbatim>\<open>!window.jspdf && !window.jspdf.jsPDF\<close> stands before
  \<^verbatim>\<open>try\<close>. With \<^verbatim>\<open>window.jspdf\<close> undefined its right operand reads a property of
  \<^verbatim>\<open>undefined\<close>; with \<^verbatim>\<open>window.jspdf\<close> defined its left operand is false.
\<close>

definition downloadPDF :: "env \<Rightarrow> page \<Rightarrow> unit run" where
  "downloadPDF e st =
     (case jspdf e of
        Missing \<Rightarrow> (Inl TypeError, st)
      | Fails \<Rightarrow>
          (Inr (), emit [ConsoleError, Alert ''PDF generation failed.''] st)
      | Gives pageSize \<Rightarrow>
          (case captureToCanvas e of
             Inl err \<Rightarrow> (Inr (), emit [ConsoleError, Alert ''PDF generation failed.''] st)
           | Inr canvas \<Rightarrow>
               (case fit_image pageSize canvas of
                  None \<Rightarrow> (Inr (), emit [ConsoleError, Alert ''PDF generation failed.''] st)
                | Some (x, y, w, h) \<Rightarrow>
                    (case currentData st of
                       None \<Rightarrow> (Inr (), emit [ConsoleError, Alert ''PDF generation failed.''] st)
                     | Some d \<Rightarrow>
                         (Inr (),
                          showToast e ''PDF downloaded''
                            (emit [SaveDocument (pdf_name d) x y w h] st))))))"

definition printTicket :: "env \<Rightarrow> page \<Rightarrow> unit run" where
  "printTicket e st =
     (if \<not> container st then (Inr (), emit [WindowPrint] st)
      else if \<not> popup_ok e then (Inr (), emit [Alert ''Popup blocked''] st)
      else (Inr (), emit [PopupPrint (ticketContainer st)] st))"

definition copyBookingId :: "env \<Rightarrow> page \<Rightarrow> unit run" where
  "copyBookingId e st =
     (let id_text = (case currentData st of None \<Rightarrow> [] | Some d \<Rightarrow> bookingId d) in
      if id_text = [] then (Inr (), showToast e ''No booking ID'' st)
      else if clipboard_ok e
      then (Inr (), showToast e ''Booking ID copied'' (emit [ClipboardWrite id_text] st))
      else (Inr (), showToast e ''Copy failed'' st))"

subsection \<open>A browser session for the examples\<close>

text \<open>
  A browser in Nairobi (UTC+3) on 1 March 2025, as far as the examples below ask it:
  its clock, the dates it is asked to parse and print, and all libraries loaded.
\<close>

definition example_env :: env where
  "example_env =
    \<lparr>now = \<lparr>getTime = 1740807296123, getFullYear = 2025, getMonth = 2, getDate = 1\<rparr>,
     Date_parse = (\<lambda>s. if s = ''2025-03-01T08:30'' then Some 1740807000000
                         else if s = ''2025-03-01T05:30:00.000Z'' then Some 1740807000000
                         else if s = ''2025-03-01T17:45'' then Some 1740840300000
                         else if s = ''2025-03-01T14:45:00.000Z'' then Some 1740840300000
                         else None),
     toISOString = (\<lambda>t. if t = 1740807000000 then ''2025-03-01T05:30:00.000Z''
                          else if t = 1740840300000 then ''2025-03-01T14:45:00.000Z''
                          else ''1970-01-01T00:00:00.000Z''),
     toLocaleString = (\<lambda>t. if t = 1740807000000 then ''Sat, Mar 1, 08:30 AM''
                             else if t = 1740840300000 then ''Sat, Mar 1, 05:45 PM''
                             else ''Thu, Jan 1, 03:00 AM''),
     formatKES = (\<lambda>n. case n of None \<Rightarrow> ''Ksh NaN'' | Some k \<Rightarrow> ''Ksh '' @ show_int k),
     protoText = (\<lambda>k. ''function '' @ k @ ''() { [native code] }''),
     location_href = ''https://harmonytravels.example/booking.html'',
     html2canvas = Gives (1600, 800),
     jspdf = Gives (297, 210),
     QRCode_ok = True,
     has_ticketContainer = True,
     has_toast = True,
     popup_ok = True,
     clipboard_ok = True,
     storage_ok = True\<rparr>"

text \<open>The page before anything is typed or rendered.\<close>

definition blank_page :: page where
  "blank_page =
    \<lparr>passengerName_input = [], phone_input = [], email_input = [], origin_input = [],
     destination_input = [], startDate_input = [], endDate_input = [],
     transportEl = ''Bus'', providerEl = select_clear, classEl = select_clear,
     priceDisplay = [], ticketContainer = None, container = False, currentData = None,
     qrInstance = None, export_hooked = False, sessionStorage = (\<lambda>k. None), effects = []\<rparr>"

text \<open>The passenger's details typed into a page.\<close>

definition fill_passenger :: "string \<Rightarrow> page \<Rightarrow> page" where
  "fill_passenger start st =
     st\<lparr>passengerName_input := '' Amina Otieno '', phone_input := ''0712345678'',
        email_input := ''amina@example.com'', startDate_input := start\<rparr>"

text \<open>The user picks a category and a class on the blank page.\<close>

definition pick :: "string \<Rightarrow> string \<Rightarrow> page" where
  "pick category cls =
     snd (class_change example_env cls (snd (transport_change example_env category blank_page)))"

definition flight_page :: page where
  "flight_page = fill_passenger ''2025-03-01T08:30'' (pick ''Flight'' ''First Class'')"

definition bus_page :: page where
  "bus_page = fill_passenger ''2025-03-01T08:30'' (pick ''Bus'' ''Premium'')"

definition flight_ticket :: ticket where
  "flight_ticket =
     \<lparr>bookingId = ''HT-20250301-296123'',
      passengerName = ''Amina Otieno'', contactPhone = ''0712345678'',
      contactEmail = ''amina@example.com'', transportType = ''Flight'',
      provider = ''Qatar Airways'', classOrSeat = ''First Class'',
      route = \<lparr>origin = ''Nairobi'', destination = ''TBA''\<rparr>,
      departDateTime = ''2025-03-01T05:30:00.000Z'',
      arriveDateTime = [], duration = [], distanceKm = None,
      price = Price 70000, taxes = Num 3500, total = Total 73500,
      additionalNotes = ''Auto-generated ticket. Please arrive on time.'',
      mapLink = ''https://www.google.com/maps/dir/?api=1&origin=Nairobi&destination=TBA'',
      qrPayload = ''https://harmonytravels.example/verify/HT-20250301-296123'',
      logoUrl = []\<rparr>"

definition bus_ticket :: ticket where
  "bus_ticket =
     \<lparr>bookingId = ''HT-20250301-296123'',
      passengerName = ''Amina Otieno'', contactPhone = ''0712345678'',
      contactEmail = ''amina@example.com'', transportType = ''Bus'',
      provider = ''Easy Coach'', classOrSeat = ''Premium'',
      route = \<lparr>origin = ''Nairobi'', destination = ''TBA''\<rparr>,
      departDateTime = ''2025-03-01T05:30:00.000Z'',
      arriveDateTime = [], duration = [], distanceKm = None,
      price = Price 2500, taxes = Num 125, total = Total 2625,
      additionalNotes = ''Auto-generated ticket. Please arrive on time.'',
      mapLink = ''https://www.google.com/maps/dir/?api=1&origin=Nairobi&destination=TBA'',
      qrPayload = ''https://harmonytravels.example/verify/HT-20250301-296123'',
      logoUrl = []\<rparr>"


text \<open>The flight page with a passenger name that opens a comment, and the ticket built from it.\<close>

definition comment_page :: page where
  "comment_page = flight_page\<lparr>passengerName_input := ''<!--''\<rparr>"

definition comment_ticket :: ticket where
  "comment_ticket = flight_ticket\<lparr>passengerName := ''<!--''\<rparr>"

text \<open>The example page after the submission of the flight booking.\<close>

definition rendered_page :: page where
  "rendered_page = snd (submit example_env flight_page)"

section \<open>The terms of the specification\<close>

text \<open>
  The format as the specification words it: fixed-width decimal fields. \<open>digits k n\<close> is
  the last \<open>k\<close> decimal digits of \<open>n\<close>, padded with zeros on the left.
\<close>

fun digits :: "nat \<Rightarrow> nat \<Rightarrow> string" where
  "digits 0 n = []"
| "digits (Suc k) n = digits k (n div 10) @ [digit_char (n mod 10)]"

definition spec_bookingId :: "clock \<Rightarrow> string" where
  "spec_bookingId c =
     ''HT-'' @ digits 4 (nat (getFullYear c)) @ digits 2 (nat (getMonth c + 1))
       @ digits 2 (nat (getDate c)) @ ''-'' @ digits 6 (nat (getTime c))"


text \<open>
  A field of the details grid as the tokens of the template's markup have it: the label
  element with its text, the line break and indentation, the value element with its
  text. The rendered ticket shows the value \<open>v\<close> in its field \<open>label\<close> when the tokens of
  its markup hold that sequence.
\<close>

definition detail_item :: "string \<Rightarrow> string \<Rightarrow> token list" where
  "detail_item label v =
     StartTag ''div'' [(''class'', ''detail-label'')] # map Character label
       @ EndTag ''div'' # map Character ''\<newline>            ''
       @ StartTag ''div'' [(''class'', ''detail-value'')] # map Character v @ [EndTag ''div'']"

definition shows_detail :: "string \<Rightarrow> string \<Rightarrow> string \<Rightarrow> bool" where
  "shows_detail markup label v \<longleftrightarrow> sublist (detail_item label v) (tokenize markup)"

text \<open>
  The markup of the template from the Arrive label to the end of the Duration value,
  with the texts \<open>a\<close> and \<open>u\<close> in the two value elements.
\<close>

definition details_markup :: "string \<Rightarrow> string \<Rightarrow> string" where
  \<open>details_markup a u =
          ''            <div class="detail-label">Arrive</div>\<newline>''
        @ ''            <div class="detail-value">'' @ a @ ''</div>\<newline>''
        @ ''          </div>\<newline>''
        @ ''\<newline>''
        @ ''          <div class="detail-item">\<newline>''
        @ ''            <div class="detail-label">Duration</div>\<newline>''
        @ ''            <div class="detail-value">'' @ u @ ''</div>\<newline>''\<close>

text \<open>
  The texts of a ticket that the template sets ahead of the Arrive and Duration fields,
  the booking id apart; and a text with no \<^verbatim>\<open><\<close> in it, which the tokenizer reads as
  character data whatever it holds.
\<close>

definition texts_before_details :: "env \<Rightarrow> ticket \<Rightarrow> string list" where
  "texts_before_details e d =
     [passengerName d, contactPhone d, contactEmail d, origin (route d), destination (route d),
      transportType d, provider d, classOrSeat d, formatDate e (departDateTime d)]"

definition markup_free :: "string \<Rightarrow> bool" where
  "markup_free t \<longleftrightarrow> CHR ''<'' \<notin> set t"

text \<open>
  Before any render the renderer holds no container and no ticket: its variables
  \<^verbatim>\<open>container\<close> and \<^verbatim>\<open>currentData\<close> are \<^verbatim>\<open>null\<close>.
\<close>

definition unrendered :: "page \<Rightarrow> bool" where
  "unrendered st \<longleftrightarrow> \<not> container st \<and> currentData st = None"

text \<open>
  The class drop-down is consistent with the category control when it lists the classes
  configured for the selected category (none for a category that is not in the matrix)
  and its value is empty or one of its options. The \<^verbatim>\<open>change\<close> listeners and the submit
  handler leave the page so.
\<close>

definition configured_classes :: "string \<Rightarrow> string list" where
  "configured_classes c =
     (case map_of PRICE_MATRIX c of Some spec \<Rightarrow> map fst (classes spec) | None \<Rightarrow> [])"

definition consistent :: "page \<Rightarrow> bool" where
  "consistent st \<longleftrightarrow>
     sel_options (classEl st) = configured_classes (transportEl st)
     \<and> (sel_value (classEl st) = [] \<or> sel_value (classEl st) \<in> set (sel_options (classEl st)))"

section \<open>Properties\<close>

subsection \<open>Decimal texts\<close>

lemma length_digits: "length (digits k n) = k"
  by (induction k arbitrary: n) auto

lemma show_nat_step: "10 \<le> n \<Longrightarrow> show_nat n = show_nat (n div 10) @ [digit_char (n mod 10)]"
  by (subst show_nat.simps) simp

lemma show_nat_small: "n < 10 \<Longrightarrow> show_nat n = [digit_char n]"
  by (subst show_nat.simps) simp

lemma length_show_nat_ge: "10 ^ k \<le> n \<Longrightarrow> Suc k \<le> length (show_nat n)"
proof (induction k arbitrary: n)
  case 0
  show ?case by (cases "n < 10") (simp_all add: show_nat_small show_nat_step)
next
  case (Suc k)
  have "(10::nat) \<le> 10 ^ Suc k" by simp
  with Suc.prems have n10: "10 \<le> n" by linarith
  from Suc.prems have "10 ^ k \<le> n div 10" by (simp add: less_eq_div_iff_mult_less_eq)
  then have "Suc k \<le> length (show_nat (n div 10))" by (rule Suc.IH)
  then show ?case using n10 by (simp add: show_nat_step)
qed

lemma show_nat_suffix:
  "10 ^ k \<le> n \<Longrightarrow> drop (length (show_nat n) - Suc k) (show_nat n) = digits (Suc k) n"
proof (induction k arbitrary: n)
  case 0
  show ?case by (cases "n < 10") (simp_all add: show_nat_small show_nat_step)
next
  case (Suc k)
  have "(10::nat) \<le> 10 ^ Suc k" by simp
  with Suc.prems have n10: "10 \<le> n" by linarith
  from Suc.prems have low: "10 ^ k \<le> n div 10" by (simp add: less_eq_div_iff_mult_less_eq)
  then have len: "Suc k \<le> length (show_nat (n div 10))" by (rule length_show_nat_ge)
  have "drop (length (show_nat n) - Suc (Suc k)) (show_nat n)
      = drop (length (show_nat (n div 10)) - Suc k) (show_nat (n div 10)) @ [digit_char (n mod 10)]"
    using n10 len by (simp add: show_nat_step)
  also have "\<dots> = digits (Suc k) (n div 10) @ [digit_char (n mod 10)]"
    using Suc.IH [OF low] by simp
  finally show ?case by simp
qed

lemma length_show_nat_le: "n < 10 ^ Suc k \<Longrightarrow> length (show_nat n) \<le> Suc k"
proof (induction k arbitrary: n)
  case 0
  then show ?case by (simp add: show_nat_small)
next
  case (Suc k)
  show ?case
  proof (cases "n < 10")
    case True
    then show ?thesis by (simp add: show_nat_small)
  next
    case False
    from Suc.prems have "n div 10 < 10 ^ Suc k" by (simp add: div_less_iff_less_mult)
    then have "length (show_nat (n div 10)) \<le> Suc k" by (rule Suc.IH)
    with False show ?thesis by (simp add: show_nat_step)
  qed
qed

lemma show_nat_exact:
  assumes "10 ^ k \<le> n" and "n < 10 ^ Suc k"
  shows "show_nat n = digits (Suc k) n"
proof -
  have "length (show_nat n) = Suc k"
    using length_show_nat_ge [OF assms(1)] length_show_nat_le [OF assms(2)] by simp
  with show_nat_suffix [OF assms(1)] show ?thesis by simp
qed

lemma show_nat_digits4: "1000 \<le> n \<Longrightarrow> n < 10000 \<Longrightarrow> show_nat n = digits 4 n"
  using show_nat_exact [of 3 n] by (simp del: digits.simps)

lemma show_nat_digits2: "10 \<le> n \<Longrightarrow> n < 100 \<Longrightarrow> show_nat n = digits 2 n"
  using show_nat_exact [of 1 n] by (simp add: numeral_2_eq_2 del: digits.simps)

lemma slice_last6_digits: "100000 \<le> n \<Longrightarrow> slice_last6 (show_nat n) = digits 6 n"
  using show_nat_suffix [of 5 n] by (simp add: slice_last6_def del: digits.simps)

lemma digits2_small: "n < 10 \<Longrightarrow> digits 2 n = [CHR ''0'', digit_char n]"
proof -
  assume "n < 10"
  have "digits 2 n = digits (Suc (Suc 0)) n" by (simp add: numeral_2_eq_2)
  also have "\<dots> = [digit_char ((n div 10) mod 10), digit_char (n mod 10)]" by simp
  finally show ?thesis using \<open>n < 10\<close> by (simp add: digit_char_def)
qed

lemma padStart2_digits: "n < 100 \<Longrightarrow> padStart2 (show_nat n) = digits 2 n"
proof (cases "n < 10")
  case True
  then show ?thesis by (simp add: padStart2_def show_nat_small digits2_small)
next
  case False
  assume "n < 100"
  with False have "show_nat n = digits 2 n" by (simp add: show_nat_digits2)
  then show ?thesis by (simp add: padStart2_def length_digits)
qed

lemma make_bookingId_format:
  assumes "1000 \<le> getFullYear c" "getFullYear c \<le> 9999"
    and "0 \<le> getMonth c" "getMonth c \<le> 11"
    and "1 \<le> getDate c" "getDate c \<le> 31"
    and "100000 \<le> getTime c"
  shows "make_bookingId c = spec_bookingId c"
proof -
  have y: "show_int (getFullYear c) = digits 4 (nat (getFullYear c))"
    using assms(1,2) by (simp add: show_int_def show_nat_digits4)
  have m: "padStart2 (show_int (getMonth c + 1)) = digits 2 (nat (getMonth c + 1))"
    using assms(3,4) by (simp add: show_int_def padStart2_digits)
  have d: "padStart2 (show_int (getDate c)) = digits 2 (nat (getDate c))"
    using assms(5,6) by (simp add: show_int_def padStart2_digits)
  have t: "slice_last6 (show_int (getTime c)) = digits 6 (nat (getTime c))"
    using assms(7) by (simp add: show_int_def slice_last6_digits)
  show ?thesis unfolding make_bookingId_def spec_bookingId_def y m d t ..
qed

lemma digits_numeral:
  "digits (numeral k) n = digits (pred_numeral k) (n div 10) @ [digit_char (n mod 10)]"
  by (simp only: numeral_eq_Suc [of k] digits.simps)

subsection \<open>What the submit handler does\<close>

lemma build_ticketData_fields:
  assumes "build_ticketData e st = Inr d"
  shows "bookingId d = make_bookingId (now e)"
    and "getPrice st = Inr (price d)"
    and "taxes d = tax_of (price d)"
    and "total d = total_of (price d) (taxes d)"
    and "origin (route d) = or_else (origin_input st) ''Nairobi''"
    and "destination (route d) = or_else (destination_input st) ''TBA''"
    and "duration d = []"
    and "distanceKm d = None"
    and "arriveDateTime d = [] \<longleftrightarrow> endDate_input st = [] \<or>
           (\<exists>t. Date_parse e (endDate_input st) = Some t \<and> toISOString e t = [])"
    and "logoUrl d = []"
    and "passengerName d = trim (passengerName_input st)"
  using assms
  by (auto simp: build_ticketData_def Let_def split: sum.splits option.splits if_splits)

lemma build_ticketData_succeeds:
  assumes "Date_parse e (startDate_input st) \<noteq> None"
    and "endDate_input st = [] \<or> Date_parse e (endDate_input st) \<noteq> None"
    and "getPrice st = Inr p"
  shows "\<exists>d. build_ticketData e st = Inr d"
proof -
  from assms(1) obtain t0 where t0: "Date_parse e (startDate_input st) = Some t0" by auto
  show ?thesis
  proof (cases "endDate_input st = []")
    case True
    then show ?thesis by (simp add: build_ticketData_def Let_def assms(3) t0)
  next
    case False
    with assms(2) obtain t1 where "Date_parse e (endDate_input st) = Some t1" by auto
    with False show ?thesis by (simp add: build_ticketData_def Let_def assms(3) t0)
  qed
qed

lemma submit_rejected:
  assumes "trim (passengerName_input st) = [] \<or> trim (phone_input st) = []
             \<or> trim (email_input st) = [] \<or> startDate_input st = []"
  shows "submit e st = (Inr None, emit [Alert required_fields_alert] st)"
  using assms by (simp add: submit_def)

lemma submit_built:
  assumes "submit e st = (Inr (Some d), st')"
  shows "build_ticketData e st = Inr d"
    and "trim (passengerName_input st) \<noteq> []"
    and "trim (phone_input st) \<noteq> []"
    and "trim (email_input st) \<noteq> []"
    and "startDate_input st \<noteq> []"
    and "has_ticketContainer e"
    and "has_toast e"
    and "st' = snd (after_render e d (snd (init e d st)))"
  using assms
  by (auto simp: submit_def after_render_def init_def Let_def
           split: sum.splits option.splits if_splits)

lemma submit_accepts:
  assumes "trim (passengerName_input st) \<noteq> []" "trim (phone_input st) \<noteq> []"
    and "trim (email_input st) \<noteq> []" "startDate_input st \<noteq> []"
    and "build_ticketData e st = Inr d"
    and "has_ticketContainer e" "has_toast e"
  shows "submit e st = (Inr (Some d), snd (after_render e d (snd (init e d st))))"
  using assms by (simp add: submit_def init_def after_render_def Let_def)

text \<open>The handler leaves the form as it is: it resets nothing, on any of its paths.\<close>

lemma submit_frame:
  "transportEl (snd (submit e st)) = transportEl st"
  "classEl (snd (submit e st)) = classEl st"
  "providerEl (snd (submit e st)) = providerEl st"
  "passengerName_input (snd (submit e st)) = passengerName_input st"
  "phone_input (snd (submit e st)) = phone_input st"
  "email_input (snd (submit e st)) = email_input st"
  "origin_input (snd (submit e st)) = origin_input st"
  "destination_input (snd (submit e st)) = destination_input st"
  "startDate_input (snd (submit e st)) = startDate_input st"
  "endDate_input (snd (submit e st)) = endDate_input st"
  by (simp_all add: submit_def init_def after_render_def store_ticket_def renderQR_def
        emit_def Let_def split: sum.splits)

lemma after_render_frame:
  "ticketContainer (snd (after_render e d st)) = ticketContainer st"
  "currentData (snd (after_render e d st)) = currentData st"
  by (simp_all add: after_render_def store_ticket_def emit_def Let_def)

lemma init_renders:
  "has_ticketContainer e \<Longrightarrow> ticketContainer (snd (init e d st)) = Some (buildHtml e d)"
  "has_ticketContainer e \<Longrightarrow> currentData (snd (init e d st)) = Some d"
  "has_ticketContainer e \<Longrightarrow> container (snd (init e d st))"
  by (simp_all add: init_def renderQR_def emit_def)

lemma submit_renders:
  assumes "submit e st = (Inr (Some d), st')"
  shows "ticketContainer st' = Some (buildHtml e d)" and "currentData st' = Some d"
proof -
  from assms have c: "has_ticketContainer e"
    and st': "st' = snd (after_render e d (snd (init e d st)))"
    by (rule submit_built)+
  show "ticketContainer st' = Some (buildHtml e d)"
    by (simp add: st' after_render_frame init_renders [OF c])
  show "currentData st' = Some d"
    by (simp add: st' after_render_frame init_renders [OF c])
qed

subsection \<open>Pricing\<close>

lemma fold_select_append_options:
  "sel_options (fold select_append ps s) = sel_options s @ ps"
  by (induction ps arbitrary: s) (simp_all add: select_append_def)


lemma updatePrice_frame:
  "providerEl (snd (updatePrice e st)) = providerEl st"
  "classEl (snd (updatePrice e st)) = classEl st"
  "transportEl (snd (updatePrice e st)) = transportEl st"
  by (simp_all add: updatePrice_def split: sum.splits)

lemma updatePrice_result:
  "getPrice st = Inr p \<Longrightarrow> fst (updatePrice e st) = Inr ()"
  by (simp add: updatePrice_def)

lemma own_property: "map_of obj key = Some v \<Longrightarrow> get_property obj key = Own v"
  by (simp add: get_property_def)

lemma getPrice_own_category_no_throw:
  "map_of PRICE_MATRIX (transportEl st) = Some spec \<Longrightarrow> \<exists>p. getPrice st = Inr p"
  by (auto simp: getPrice_def Let_def own_property split: property.splits)

lemma populateOptions_own:
  assumes "map_of PRICE_MATRIX c = Some spec" and "transportEl st = c"
  shows "fst (populateOptions e c st) = Inr ()"
    and "sel_options (providerEl (snd (populateOptions e c st))) = providers spec"
    and "sel_options (classEl (snd (populateOptions e c st))) = map fst (classes spec)"
    and "transportEl (snd (populateOptions e c st)) = c"
proof -
  define st2 where
    "st2 = st\<lparr>providerEl := fold select_append (providers spec) select_clear,
              classEl := fold select_append (map fst (classes spec)) select_clear\<rparr>"
  have pop: "populateOptions e c st = updatePrice e st2"
    by (simp add: populateOptions_def Let_def own_property [OF assms(1)] st2_def)
  have "map_of PRICE_MATRIX (transportEl st2) = Some spec" using assms by (simp add: st2_def)
  then obtain p where p: "getPrice st2 = Inr p"
    using getPrice_own_category_no_throw by blast
  show "fst (populateOptions e c st) = Inr ()"
    unfolding pop using p by (rule updatePrice_result)
  show "sel_options (providerEl (snd (populateOptions e c st))) = providers spec"
    unfolding pop updatePrice_frame
    by (simp add: st2_def fold_select_append_options select_clear_def)
  show "sel_options (classEl (snd (populateOptions e c st))) = map fst (classes spec)"
    unfolding pop updatePrice_frame
    by (simp add: st2_def fold_select_append_options select_clear_def)
  show "transportEl (snd (populateOptions e c st)) = c"
    unfolding pop updatePrice_frame by (simp add: st2_def assms(2))
qed

lemma populateOptions_not_own:
  assumes "map_of PRICE_MATRIX c = None"
  shows "providerEl (snd (populateOptions e c st)) = select_clear"
    and "classEl (snd (populateOptions e c st)) = select_clear"
    and "transportEl (snd (populateOptions e c st)) = transportEl st"
    and "fst (populateOptions e c st) = (if c \<in> set Object_prototype then Inl TypeError else Inr ())"
  using assms by (simp_all add: populateOptions_def get_property_def Let_def)



lemma PRICE_MATRIX_well_formed:
  assumes "map_of PRICE_MATRIX c = Some spec"
  shows "c \<noteq> []" and "distinct (map fst (classes spec))" and "[] \<notin> fst ` set (classes spec)"
  using assms by (auto simp: PRICE_MATRIX_def split: if_splits)

lemma getPrice_configured:
  assumes "map_of PRICE_MATRIX (transportEl st) = Some spec"
    and "(k, p) \<in> set (classes spec)" and "sel_value (classEl st) = k"
  shows "getPrice st = Inr (Price p)"
proof -
  from assms(1) have c: "transportEl st \<noteq> []" and d: "distinct (map fst (classes spec))"
    and n: "[] \<notin> fst ` set (classes spec)"
    by (rule PRICE_MATRIX_well_formed)+
  from n assms(2) have k: "k \<noteq> []" by force
  from d assms(2) have "map_of (classes spec) k = Some p" by simp
  then have "get_property (classes spec) k = Own p" by (rule own_property)
  then show ?thesis
    using c k assms(3) by (simp add: getPrice_def Let_def own_property [OF assms(1)])
qed

lemma getPrice_unknown_category:
  assumes "sel_value (classEl st) = []"
  shows "getPrice st = Inr (Price 0)"
  using assms by (simp add: getPrice_def Let_def)

lemma select_choose_option:
  "k \<in> set (sel_options s) \<Longrightarrow> sel_value (select_choose k s) = k"
  by (simp add: select_choose_def)

lemma class_change_frame:
  "transportEl (snd (class_change e k st)) = transportEl st"
  "classEl (snd (class_change e k st)) = select_choose k (classEl st)"
  by (simp_all add: class_change_def updatePrice_frame)



lemma submit_consistent: "consistent st \<Longrightarrow> consistent (snd (submit e st))"
  unfolding consistent_def submit_frame .



text \<open>
  A category name that only \<^verbatim>\<open>Object.prototype\<close> knows makes \<^verbatim>\<open>getPrice\<close> throw when a
  class is selected. No listener leaves the page so: the \<^verbatim>\<open>change\<close> listener of the
  category has emptied the class drop-down before.
\<close>

lemma inherited_not_configured:
  "c \<in> set Object_prototype \<Longrightarrow> map_of PRICE_MATRIX c = None"
  by (auto simp: Object_prototype_def PRICE_MATRIX_def)

lemma getPrice_inherited_category:
  assumes "transportEl st \<in> set Object_prototype" and "sel_value (classEl st) \<noteq> []"
  shows "getPrice st = Inl TypeError" and "\<not> consistent st"
proof -
  from assms(1) have none: "map_of PRICE_MATRIX (transportEl st) = None"
    by (rule inherited_not_configured)
  from assms(1) have "transportEl st \<noteq> []" by (auto simp: Object_prototype_def)
  then show "getPrice st = Inl TypeError"
    using assms none by (simp add: getPrice_def Let_def get_property_def)
  show "\<not> consistent st"
    using assms(2) none by (auto simp: consistent_def configured_classes_def)
qed

text \<open>The tax in integer arithmetic: a twentieth of the price, a half rounded up.\<close>

lemma Math_round_five_percent: "Math_round (of_int p * (5 / 100)) = (p + 10) div 20"
proof -
  have "(of_int p :: rat) * (5 / 100) + 1 / 2 = of_int (p + 10) / of_int 20"
    by (simp add: field_simps)
  then have "Math_round (of_int p * (5 / 100)) = \<lfloor>(of_int (p + 10) :: rat) / of_int 20\<rfloor>"
    by (simp only: Math_round_def)
  also have "\<dots> = (p + 10) div 20"
    by (rule floor_divide_of_int_eq)
  finally show ?thesis .
qed

lemma tax_of_Price: "tax_of (Price p) = Num ((p + 10) div 20)"
  by (simp only: tax_of.simps Math_round_five_percent)

declare tax_of.simps(1) [simp del]

declare tax_of_Price [simp]

text \<open>\<^verbatim>\<open>Math.round\<close> is the rounding of the reals to the nearest integer, half up.\<close>

lemma built_amounts:
  assumes "build_ticketData e st = Inr d" and "price d = Price p"
  shows "taxes d = Num (round (of_int p * (0.05 :: rat)))"
    and "total d = Total (p + round (of_int p * (0.05 :: rat)))"
proof -
  have r: "round (of_int p * (0.05 :: rat)) = Math_round (of_int p * (5 / 100))"
    by (simp add: round_def Math_round_def)
  from build_ticketData_fields(3) [OF assms(1)] assms(2)
  show t: "taxes d = Num (round (of_int p * (0.05 :: rat)))"
    by (simp only: r tax_of.simps)
  from build_ticketData_fields(4) [OF assms(1)] assms(2) t
  show "total d = Total (p + round (of_int p * (0.05 :: rat)))" by simp
qed

subsection \<open>The markup of a ticket\<close>

lemma markup_later: "sublist x rest \<Longrightarrow> sublist x (p @ rest)"
  by (metis sublist_order.order_trans sublist_append_leftI)

lemma markup_here:
  assumes "suffix a p1" and "prefix c (p3 @ rest)"
  shows "sublist (a @ t @ c) (p1 @ t @ p3 @ rest)"
proof -
  from assms obtain u w where "p1 = u @ a" and "p3 @ rest = c @ w"
    by (auto simp: suffix_def prefix_def)
  then have "p1 @ t @ p3 @ rest = u @ (a @ t @ c) @ w" by simp
  then show ?thesis by (metis sublist_appendI)
qed

text \<open>The total box of the markup holds what \<^verbatim>\<open>fmtKES\<close> prints for the total.\<close>

lemma buildHtml_total:
  \<open>sublist (''<div class="total">'' @ fmtKES e (total_number (total d)) @ ''</div>'') (buildHtml e d)\<close>
  unfolding buildHtml_def Let_def
  apply (rule markup_here [where ?p1.0 = \<open>''          <div class="total">''\<close>] | rule markup_later)+
   apply (simp add: suffix_to_prefix)
  apply simp
  done

subsection \<open>The example session, evaluated\<close>

lemmas pricing_defs =
  class_change_def transport_change_def populateOptions_def updatePrice_def getPrice_def
  get_property_def PRICE_MATRIX_def select_clear_def select_append_def select_choose_def
  Object_prototype_def

lemmas text_defs =
  show_int_def show_nat.simps digit_char_def padStart2_def slice_last6_def
  trim_def js_whitespace_def trimStart_with.simps or_else_def
  encodeURIComponent_def uri_unreserved_def hex_char_def em_dash_def right_arrow_def

lemma pick_flight:
  "pick ''Flight'' ''First Class'' =
     blank_page\<lparr>transportEl := ''Flight'',
       providerEl := \<lparr>sel_options = [''Qatar Airways'', ''Kenya Airways''], sel_value = ''Qatar Airways''\<rparr>,
       classEl := \<lparr>sel_options = [''Economy'', ''Business'', ''First Class''], sel_value = ''First Class''\<rparr>,
       priceDisplay := ''Ksh 70000''\<rparr>"
  by (simp add: pick_def pricing_defs example_env_def blank_page_def text_defs)

lemma pick_bus:
  "pick ''Bus'' ''Premium'' =
     blank_page\<lparr>transportEl := ''Bus'',
       providerEl := \<lparr>sel_options = [''Easy Coach'', ''Guardian''], sel_value = ''Easy Coach''\<rparr>,
       classEl := \<lparr>sel_options = [''Regular'', ''Premium''], sel_value = ''Premium''\<rparr>,
       priceDisplay := ''Ksh 2500''\<rparr>"
  by (simp add: pick_def pricing_defs example_env_def blank_page_def text_defs)

lemma flight_build: "build_ticketData example_env flight_page = Inr flight_ticket"
  by (simp add: flight_page_def fill_passenger_def pick_flight build_ticketData_def
        getPrice_def get_property_def PRICE_MATRIX_def example_env_def blank_page_def
        make_bookingId_def flight_ticket_def text_defs Let_def)

lemma bus_build: "build_ticketData example_env bus_page = Inr bus_ticket"
  by (simp add: bus_page_def fill_passenger_def pick_bus build_ticketData_def
        getPrice_def get_property_def PRICE_MATRIX_def example_env_def blank_page_def
        make_bookingId_def bus_ticket_def text_defs Let_def)

lemma flight_submit:
  "submit example_env flight_page =
     (Inr (Some flight_ticket), snd (after_render example_env flight_ticket
                                        (snd (init example_env flight_ticket flight_page))))"
proof (rule submit_accepts)
  show "build_ticketData example_env flight_page = Inr flight_ticket" by (rule flight_build)
qed (simp_all add: flight_page_def fill_passenger_def example_env_def text_defs)

lemma bus_submit:
  "submit example_env bus_page =
     (Inr (Some bus_ticket), snd (after_render example_env bus_ticket
                                     (snd (init example_env bus_ticket bus_page))))"
proof (rule submit_accepts)
  show "build_ticketData example_env bus_page = Inr bus_ticket" by (rule bus_build)
qed (simp_all add: bus_page_def fill_passenger_def example_env_def text_defs)




subsection \<open>Tax and total\<close>

text \<open>
  Claim C1. For every booking record built on a successful form submission, with unit
  price \<open>p\<close> resolved from the rate table, the taxes field equals \<open>round (p * 0.05)\<close> and
  the total field equals \<open>p\<close> plus the taxes. (The witness is the scenario Flight, First
  Class: price 70000, taxes 3500, total 73500.)
\<close>

theorem taxes_and_total:
  assumes "submit e st = (Inr (Some d), st')" and "price d = Price p"
  shows "getPrice st = Inr (Price p)
       \<and> taxes d = Num (round (of_int p * (0.05 :: rat)))
       \<and> total d = Total (p + round (of_int p * (0.05 :: rat)))"
proof -
  from assms(1) have built: "build_ticketData e st = Inr d" by (rule submit_built)
  from build_ticketData_fields(2) [OF built] assms(2)
  have "getPrice st = Inr (Price p)" by simp
  with built_amounts [OF built assms(2)] show ?thesis by simp
qed

theorem taxes_and_total_witness:
  "fst (submit example_env flight_page) = Inr (Some flight_ticket)
   \<and> price flight_ticket = Price 70000
   \<and> getPrice flight_page = Inr (Price 70000)
   \<and> taxes flight_ticket = Num 3500
   \<and> total flight_ticket = Total 73500"
proof -
  have p: "price flight_ticket = Price 70000" by (simp add: flight_ticket_def)
  have r: "round (70000 * (0.05 :: rat)) = 3500" by simp
  from taxes_and_total [OF flight_submit p] r show ?thesis
    by (simp add: flight_submit p)
qed

subsection \<open>The pricing resolver\<close>

text \<open>
  Claim C2. For every transport category present in the rate table and every class name
  configured under it, the pricing resolver returns exactly the configured unit price,
  and selecting the category populates exactly its configured providers and classes; for
  every category not in the rate table the resolver returns 0 and the provider and class
  choices are left empty. Selecting is the \<^verbatim>\<open>change\<close> listener of the category control
  and of the class control. For a category that is not in the table but names a property
  inherited from \<^verbatim>\<open>Object.prototype\<close> the listener ends with a \<^verbatim>\<open>TypeError\<close>, after it
  has emptied the choices. (The witness is the scenario Bus, Premium: price 2500, taxes
  125, total 2625.)
\<close>

theorem pricing_resolver:
  fixes e :: env and st :: page
  defines "selected c \<equiv> snd (transport_change e c st)"
  shows "(\<forall>c spec. map_of PRICE_MATRIX c = Some spec \<longrightarrow>
            sel_options (providerEl (selected c)) = providers spec
          \<and> sel_options (classEl (selected c)) = map fst (classes spec)
          \<and> (\<forall>(k, p) \<in> set (classes spec).
                getPrice (snd (class_change e k (selected c))) = Inr (Price p)))
       \<and> (\<forall>c. map_of PRICE_MATRIX c = None \<longrightarrow>
            getPrice (selected c) = Inr (Price 0)
          \<and> sel_options (providerEl (selected c)) = []
          \<and> sel_options (classEl (selected c)) = []
          \<and> fst (transport_change e c st)
               = (if c \<in> set Object_prototype then Inl TypeError else Inr ()))"
proof (intro conjI allI impI)
  fix c spec
  assume own: "map_of PRICE_MATRIX c = Some spec"
  have sel: "selected c = snd (populateOptions e c (st\<lparr>transportEl := c\<rparr>))"
    by (simp add: selected_def transport_change_def)
  have t: "transportEl (st\<lparr>transportEl := c\<rparr>) = c" by simp
  show "sel_options (providerEl (selected c)) = providers spec"
    unfolding sel using own t by (rule populateOptions_own)
  show opts: "sel_options (classEl (selected c)) = map fst (classes spec)"
    unfolding sel using own t by (rule populateOptions_own)
  have tr: "transportEl (selected c) = c"
    unfolding sel using own t by (rule populateOptions_own)
  show "\<forall>(k, p) \<in> set (classes spec).
          getPrice (snd (class_change e k (selected c))) = Inr (Price p)"
  proof (clarify)
    fix k p
    assume kp: "(k, p) \<in> set (classes spec)"
    then have "k \<in> set (sel_options (classEl (selected c)))" by (force simp: opts)
    then have "sel_value (classEl (snd (class_change e k (selected c)))) = k"
      by (simp add: class_change_frame select_choose_option)
    moreover have "map_of PRICE_MATRIX (transportEl (snd (class_change e k (selected c)))) = Some spec"
      by (simp add: class_change_frame tr own)
    ultimately show "getPrice (snd (class_change e k (selected c))) = Inr (Price p)"
      using kp getPrice_configured by blast
  qed
next
  fix c
  assume none: "map_of PRICE_MATRIX c = None"
  have sel: "selected c = snd (populateOptions e c (st\<lparr>transportEl := c\<rparr>))"
    by (simp add: selected_def transport_change_def)
  have p: "providerEl (selected c) = select_clear" and k: "classEl (selected c) = select_clear"
    unfolding sel using none by (rule populateOptions_not_own)+
  show "getPrice (selected c) = Inr (Price 0)"
    by (rule getPrice_unknown_category) (simp add: k select_clear_def)
  show "sel_options (providerEl (selected c)) = []" by (simp add: p select_clear_def)
  show "sel_options (classEl (selected c)) = []" by (simp add: k select_clear_def)
  show "fst (transport_change e c st)
          = (if c \<in> set Object_prototype then Inl TypeError else Inr ())"
    unfolding transport_change_def using none by (rule populateOptions_not_own)
qed

theorem pricing_resolver_witness:
  \<open>map_of PRICE_MATRIX ''Bus''
     = Some \<lparr>providers = [''Easy Coach'', ''Guardian''],
             classes = [(''Regular'', 1500), (''Premium'', 2500)]\<rparr>
   \<and> sel_options (providerEl (snd (transport_change example_env ''Bus'' blank_page)))
       = [''Easy Coach'', ''Guardian'']
   \<and> sel_options (classEl (snd (transport_change example_env ''Bus'' blank_page)))
       = [''Regular'', ''Premium'']
   \<and> getPrice (pick ''Bus'' ''Premium'') = Inr (Price 2500)
   \<and> fst (submit example_env bus_page) = Inr (Some bus_ticket)
   \<and> price bus_ticket = Price 2500 \<and> taxes bus_ticket = Num 125 \<and> total bus_ticket = Total 2625
   \<and> sublist (''<div class="total">'' @ formatKES example_env (Some 2625) @ ''</div>'')
       (buildHtml example_env bus_ticket)
   \<and> map_of PRICE_MATRIX ''Boat'' = None
   \<and> getPrice (snd (transport_change example_env ''Boat'' blank_page)) = Inr (Price 0)
   \<and> sel_options (providerEl (snd (transport_change example_env ''Boat'' blank_page))) = []
   \<and> sel_options (classEl (snd (transport_change example_env ''Boat'' blank_page))) = []\<close>
proof -
  let ?spec = "\<lparr>providers = [''Easy Coach'', ''Guardian''],
                 classes = [(''Regular'', 1500), (''Premium'', 2500 :: int)]\<rparr>"
  have bus: "map_of PRICE_MATRIX ''Bus'' = Some ?spec" by (simp add: PRICE_MATRIX_def)
  have boat: "map_of PRICE_MATRIX ''Boat'' = None" by (simp add: PRICE_MATRIX_def)
  note inst = pricing_resolver [of example_env blank_page]
  from inst bus
  have b: "sel_options (providerEl (snd (transport_change example_env ''Bus'' blank_page)))
             = providers ?spec"
    "sel_options (classEl (snd (transport_change example_env ''Bus'' blank_page)))
             = map fst (classes ?spec)"
    "\<forall>(k, p) \<in> set (classes ?spec).
        getPrice (snd (class_change example_env k
                         (snd (transport_change example_env ''Bus'' blank_page)))) = Inr (Price p)"
    by blast+
  from b(3) have premium: "getPrice (pick ''Bus'' ''Premium'') = Inr (Price 2500)"
    by (simp add: pick_def)
  from inst boat
  have u: "getPrice (snd (transport_change example_env ''Boat'' blank_page)) = Inr (Price 0)"
    "sel_options (providerEl (snd (transport_change example_env ''Boat'' blank_page))) = []"
    "sel_options (classEl (snd (transport_change example_env ''Boat'' blank_page))) = []"
    by blast+
  have t: "price bus_ticket = Price 2500" "taxes bus_ticket = Num 125"
    "total bus_ticket = Total 2625"
    by (simp_all add: bus_ticket_def)
  have "fmtKES example_env (total_number (total bus_ticket)) = formatKES example_env (Some 2625)"
    by (simp add: t fmtKES_def)
  with buildHtml_total [of example_env bus_ticket]
  have box: \<open>sublist (''<div class="total">'' @ formatKES example_env (Some 2625) @ ''</div>'')
               (buildHtml example_env bus_ticket)\<close>
    by (simp only:)
  from bus boat b(1,2) premium u t box show ?thesis by (simp add: bus_submit)
qed

subsection \<open>Validation of the required fields\<close>

text \<open>
  With a required text field blank after trimming, or the depart date empty, the handler
  alerts and returns: no record, and the page is as before but for the alert.
\<close>

lemma submit_rejects_blank:
  assumes "trim (passengerName_input st) = [] \<or> trim (phone_input st) = []
             \<or> trim (email_input st) = [] \<or> startDate_input st = []"
  shows "fst (submit e st) = Inr None"
    and "effects (snd (submit e st)) = effects st @ [Alert required_fields_alert]"
    and "snd (submit e st) = st\<lparr>effects := effects st @ [Alert required_fields_alert]\<rparr>"
    and "sessionStorage (snd (submit e st)) = sessionStorage st"
    and "currentData (snd (submit e st)) = currentData st"
    and "ticketContainer (snd (submit e st)) = ticketContainer st"
  using assms by (simp_all add: submit_rejected emit_def)

text \<open>
  The handler trims the three text fields and tests the value of the depart control as it
  is: once the three are filled and that value is not the empty string, the validation
  passes.
\<close>

lemma submit_never_alerts_when_filled:
  assumes "trim (passengerName_input st) \<noteq> []" and "trim (phone_input st) \<noteq> []"
    and "trim (email_input st) \<noteq> []" and "startDate_input st \<noteq> []"
  shows "fst (submit e st) \<noteq> Inr None"
    and "Alert required_fields_alert \<in> set (effects (snd (submit e st)))
           \<longleftrightarrow> Alert required_fields_alert \<in> set (effects st)"
  using assms
  by (auto simp: submit_def init_def after_render_def store_ticket_def renderQR_def emit_def Let_def
           split: sum.splits if_splits)








text \<open>Values of a date-time control: dates as entered or normalised, and texts that are no date.\<close>

lemmas date_defs =
  datetime_local_value_def valid_local_date_time_def date_time_parts_def valid_date_string_def
  valid_time_string_def is_digit_def decimal_def digit_value_def days_in_month_def
  normalized_time_def

lemma datetime_local_value_examples:
  "datetime_local_value ''2025-03-01T08:30'' = ''2025-03-01T08:30''"
  "datetime_local_value ''2025-03-01 08:30:00.000'' = ''2025-03-01T08:30''"
  "datetime_local_value ''2025-03-01T08:30:15.250'' = ''2025-03-01T08:30:15.25''"
  "datetime_local_value ''2025-02-30T08:30'' = []"
  "datetime_local_value ''tomorrow'' = []"
  "datetime_local_value '' '' = []"
  by (simp_all add: date_defs Let_def)

text \<open>
  The handler itself does not trim the value of the depart control. A value of one space,
  which a date-time control never has, would pass its test, and \<^verbatim>\<open>toISOString\<close> of the
  invalid date would throw out of the handler.
\<close>

lemma untrimmed_depart_value:
  "submit example_env (flight_page\<lparr>startDate_input := '' ''\<rparr>)
     = (Inl RangeError, flight_page\<lparr>startDate_input := '' ''\<rparr>)"
  by (simp add: flight_page_def fill_passenger_def pick_flight submit_def
        build_ticketData_def getPrice_def get_property_def PRICE_MATRIX_def
        example_env_def blank_page_def text_defs Let_def)



subsection \<open>The session store\<close>



lemma map_of_JSON_members:
  "distinct (map fst ms) \<Longrightarrow>
   map_of (JSON_members ms) k = (case map_of ms k of None \<Rightarrow> None | Some v \<Rightarrow> JSON_stringify v)"
proof (induction ms)
  case Nil
  then show ?case by simp
next
  case (Cons m ms)
  then have IH: "map_of (JSON_members ms) k
                   = (case map_of ms k of None \<Rightarrow> None | Some v \<Rightarrow> JSON_stringify v)"
    and fresh: "map_of ms (fst m) = None"
    by (simp_all add: map_of_eq_None_iff)
  show ?case
  proof (cases "k = fst m")
    case True
    with IH fresh show ?thesis by (cases m) (simp split: option.split)
  next
    case False
    with IH show ?thesis by (cases m) (simp split: option.split)
  qed
qed


lemma ticketData_members_distinct: "distinct (map fst (ticketData_members e d))"
  by (simp add: ticketData_members_def)




text \<open>
  The member \<^verbatim>\<open>distanceKm\<close>, always \<^verbatim>\<open>undefined\<close>, is the one member that the stored
  document does not list; reading it from the parsed object gives \<^verbatim>\<open>undefined\<close> again.
\<close>

lemma stored_ticket_omits_distanceKm:
  assumes "distanceKm d = None"
  shows "map_of (JSON_members (ticketData_members e d)) ''distanceKm'' = None"
proof -
  have "map_of (ticketData_members e d) ''distanceKm'' = Some DUndefined"
    using assms by (simp add: ticketData_members_def)
  then show ?thesis
    by (simp only: map_of_JSON_members [OF ticketData_members_distinct] option.case
          JSON_stringify.simps)
qed



subsection \<open>Exports before a render\<close>

lemma downloadPNG_unrendered:
  "currentData st = None \<Longrightarrow>
   downloadPNG e st = (Inr (), emit [ConsoleError, Alert ''PNG generation failed.''] st)"
  by (simp add: downloadPNG_def split: sum.splits)

lemma downloadPDF_unrendered:
  "currentData st = None \<Longrightarrow> jspdf e \<noteq> Missing \<Longrightarrow>
   downloadPDF e st = (Inr (), emit [ConsoleError, Alert ''PDF generation failed.''] st)"
  by (simp add: downloadPDF_def split: sum.splits lib.splits option.splits prod.splits)

text \<open>
  Claim C5. Every export operation invoked before any render signals a recoverable,
  user-visible error and does not perform the export. Print does not: with no container
  it prints the current page, and signals nothing.
\<close>

theorem print_before_render:
  "unrendered blank_page
   \<and> printTicket example_env blank_page = (Inr (), blank_page\<lparr>effects := [WindowPrint]\<rparr>)"
  by (simp add: unrendered_def printTicket_def blank_page_def emit_def)

text \<open>
  Claim C5, amended. Before any render, rasterize-to-image and, with the PDF library
  loaded, rasterize-to-document alert their failure and save nothing; copy-booking-id
  shows the toast \<^verbatim>\<open>No booking ID\<close> (when the page has the toast element) and copies
  nothing; print prints the current page directly.
\<close>

theorem export_before_render:
  assumes "unrendered st"
  shows "downloadPNG e st = (Inr (), emit [ConsoleError, Alert ''PNG generation failed.''] st)
       \<and> (jspdf e \<noteq> Missing \<longrightarrow>
            downloadPDF e st = (Inr (), emit [ConsoleError, Alert ''PDF generation failed.''] st))
       \<and> (has_toast e \<longrightarrow> copyBookingId e st = (Inr (), emit [Toast ''No booking ID''] st))
       \<and> printTicket e st = (Inr (), emit [WindowPrint] st)"
  using assms
  by (simp add: unrendered_def downloadPNG_unrendered downloadPDF_unrendered
        copyBookingId_def showToast_def printTicket_def)

theorem export_before_render_witness:
  "unrendered blank_page \<and> jspdf example_env \<noteq> Missing \<and> has_toast example_env
   \<and> downloadPNG example_env blank_page
        = (Inr (), blank_page\<lparr>effects := [ConsoleError, Alert ''PNG generation failed.'']\<rparr>)
   \<and> downloadPDF example_env blank_page
        = (Inr (), blank_page\<lparr>effects := [ConsoleError, Alert ''PDF generation failed.'']\<rparr>)
   \<and> copyBookingId example_env blank_page
        = (Inr (), blank_page\<lparr>effects := [Toast ''No booking ID'']\<rparr>)
   \<and> printTicket example_env blank_page = (Inr (), blank_page\<lparr>effects := [WindowPrint]\<rparr>)"
proof -
  have u: "unrendered blank_page" by (simp add: unrendered_def blank_page_def)
  have l: "jspdf example_env \<noteq> Missing" and t: "has_toast example_env"
    by (simp_all add: example_env_def)
  have fx: "emit xs blank_page = blank_page\<lparr>effects := xs\<rparr>" for xs
    by (simp add: emit_def blank_page_def)
  from export_before_render [OF u, of example_env] l t show ?thesis
    by (simp add: u fx)
qed

subsection \<open>The image on the page\<close>

lemma fit_size_fits:
  assumes "0 < iw" and "0 < ih" and "0 < W" and "0 < H"
  shows "fst (fit_size (W, H) (iw, ih)) \<le> W"
    and "snd (fit_size (W, H) (iw, ih)) \<le> H"
    and "0 < fst (fit_size (W, H) (iw, ih))"
    and "0 < snd (fit_size (W, H) (iw, ih))"
    and "snd (fit_size (W, H) (iw, ih)) * of_nat iw = fst (fit_size (W, H) (iw, ih)) * of_nat ih"
    and "fst (fit_size (W, H) (iw, ih)) = W \<or> snd (fit_size (W, H) (iw, ih)) = H"
proof -
  have pos: "(0::rat) < of_nat iw" "(0::rat) < of_nat ih" using assms(1,2) by simp_all
  show "fst (fit_size (W, H) (iw, ih)) \<le> W"
  proof (cases "(of_nat ih / of_nat iw) * W > H")
    case True
    with pos have "H * of_nat iw < of_nat ih * W" by (simp add: field_simps)
    then have "(of_nat iw / of_nat ih) * H < W" using pos by (simp add: field_simps)
    with True show ?thesis by (simp add: fit_size_def Let_def)
  next
    case False
    then show ?thesis by (simp add: fit_size_def Let_def)
  qed
  show "snd (fit_size (W, H) (iw, ih)) \<le> H"
    by (simp add: fit_size_def Let_def)
  show "0 < fst (fit_size (W, H) (iw, ih))"
    using pos assms(3,4) by (simp add: fit_size_def Let_def)
  show "0 < snd (fit_size (W, H) (iw, ih))"
    using pos assms(3,4) by (simp add: fit_size_def Let_def)
  show "snd (fit_size (W, H) (iw, ih)) * of_nat iw = fst (fit_size (W, H) (iw, ih)) * of_nat ih"
    using pos by (simp add: fit_size_def Let_def)
  show "fst (fit_size (W, H) (iw, ih)) = W \<or> snd (fit_size (W, H) (iw, ih)) = H"
    by (simp add: fit_size_def Let_def)
qed

lemma fit_image_placed:
  assumes "0 < iw" and "0 < ih"
  shows "fit_image (W, H) (iw, ih)
           = Some ((W - fst (fit_size (W, H) (iw, ih))) / 2,
                   (H - snd (fit_size (W, H) (iw, ih))) / 2,
                   fst (fit_size (W, H) (iw, ih)), snd (fit_size (W, H) (iw, ih)))"
  using assms by (simp add: fit_image_def Let_def)

lemma downloadPDF_saves:
  assumes "jspdf e = Gives pageSize" and "html2canvas e = Gives canvas"
    and "has_ticketContainer e" and "currentData st = Some d"
    and "fit_image pageSize canvas = Some (x, y, w, h)"
  shows "downloadPDF e st
           = (Inr (), showToast e ''PDF downloaded'' (emit [SaveDocument (pdf_name d) x y w h] st))"
  by (simp add: downloadPDF_def captureToCanvas_def assms)

text \<open>
  Claim C6. The image is placed centred, its aspect ratio preserved, within the page,
  scaled down on overflow and never scaled up beyond its captured size. The last part
  fails: a bitmap of 100 by 50 pixels is placed 297 by 148.5 millimetres on the A4
  landscape page (a pixel is about a quarter of a millimetre).
\<close>

theorem image_upscaled:
  "fit_image (297, 210) (100, 50) = Some (0, 123 / 4, 297, 297 / 2)
   \<and> (of_nat 100 :: rat) < 297 \<and> (of_nat 50 :: rat) < 297 / 2"
  by (simp add: fit_image_def fit_size_def Let_def)

text \<open>
  Claim C6, amended. For every captured bitmap of positive width and height and every
  page of positive width and height, rasterize-to-document places the image centred,
  with its aspect ratio preserved, no wider and no higher than the page, and scaled so
  that it fills the page's width or its height (a small bitmap is scaled up).
\<close>

theorem image_fitted_to_page:
  assumes "jspdf e = Gives (W, H)" and "html2canvas e = Gives (iw, ih)"
    and "has_ticketContainer e" and "currentData st = Some d"
    and "0 < iw" and "0 < ih" and "0 < W" and "0 < H"
  shows "\<exists>x y w h.
           downloadPDF e st
             = (Inr (), showToast e ''PDF downloaded''
                          (emit [SaveDocument (pdf_name d) x y w h] st))
         \<and> x = (W - w) / 2 \<and> y = (H - h) / 2
         \<and> h * of_nat iw = w * of_nat ih
         \<and> 0 < w \<and> w \<le> W \<and> 0 < h \<and> h \<le> H
         \<and> (w = W \<or> h = H)"
proof -
  let ?w = "fst (fit_size (W, H) (iw, ih))" and ?h = "snd (fit_size (W, H) (iw, ih))"
  have "downloadPDF e st
          = (Inr (), showToast e ''PDF downloaded''
                       (emit [SaveDocument (pdf_name d) ((W - ?w) / 2) ((H - ?h) / 2) ?w ?h] st))"
    using assms(1-4) fit_image_placed [OF assms(5,6)] by (rule downloadPDF_saves)
  with fit_size_fits [OF assms(5-8)] show ?thesis by blast
qed

theorem image_fitted_to_page_witness:
  "jspdf example_env = Gives (297, 210) \<and> html2canvas example_env = Gives (1600, 800)
   \<and> has_ticketContainer example_env \<and> currentData rendered_page = Some flight_ticket
   \<and> (\<exists>x y w h.
         downloadPDF example_env rendered_page
           = (Inr (), showToast example_env ''PDF downloaded''
                (emit [SaveDocument (pdf_name flight_ticket) x y w h] rendered_page))
       \<and> x = 0 \<and> y = 123 / 4 \<and> w = 297 \<and> h = 297 / 2)"
proof -
  have l: "jspdf example_env = Gives (297, 210)" "html2canvas example_env = Gives (1600, 800)"
    "has_ticketContainer example_env"
    by (simp_all add: example_env_def)
  have s: "submit example_env flight_page = (Inr (Some flight_ticket), rendered_page)"
    by (simp add: rendered_page_def flight_submit)
  have c: "currentData rendered_page = Some flight_ticket"
    using s by (rule submit_renders)
  have "\<exists>x y w h.
           downloadPDF example_env rendered_page
             = (Inr (), showToast example_env ''PDF downloaded''
                  (emit [SaveDocument (pdf_name flight_ticket) x y w h] rendered_page))
         \<and> x = (297 - w) / 2 \<and> y = (210 - h) / 2
         \<and> h * of_nat 1600 = w * of_nat 800
         \<and> 0 < w \<and> w \<le> 297 \<and> 0 < h \<and> h \<le> 210
         \<and> (w = 297 \<or> h = 210)"
    by (rule image_fitted_to_page [OF l c]) simp_all
  then obtain x y w h where
    run: "downloadPDF example_env rendered_page
            = (Inr (), showToast example_env ''PDF downloaded''
                 (emit [SaveDocument (pdf_name flight_ticket) x y w h] rendered_page))"
    and x: "x = (297 - w) / 2" and y: "y = (210 - h) / 2"
    and ratio: "h * of_nat 1600 = w * of_nat 800"
    and full: "w = 297 \<or> h = 210" and bound: "w \<le> 297"
    by blast
  from ratio have half: "h = w / 2" by simp
  with full bound have w: "w = 297" by auto
  with half have h: "h = 297 / 2" by simp
  from x w have x0: "x = 0" by simp
  from y h have y0: "y = 123 / 4" by simp
  from run x0 y0 w h have "\<exists>x y w h.
         downloadPDF example_env rendered_page
           = (Inr (), showToast example_env ''PDF downloaded''
                (emit [SaveDocument (pdf_name flight_ticket) x y w h] rendered_page))
       \<and> x = 0 \<and> y = 123 / 4 \<and> w = 297 \<and> h = 297 / 2"
    by blast
  with l c show ?thesis by blast
qed

subsection \<open>The missing PDF library\<close>

text \<open>
  Claim C7. Whenever the PDF library is absent, rasterize-to-document signals an error to
  the user and returns without an unhandled exception. It does not: with
  \<^verbatim>\<open>window.jspdf\<close> undefined the guard \<^verbatim>\<open>!window.jspdf && !window.jspdf.jsPDF\<close> reads a
  property of \<^verbatim>\<open>undefined\<close>, so the operation ends with a \<^verbatim>\<open>TypeError\<close> before its
  alert and outside its \<^verbatim>\<open>try\<close>; nothing is shown to the user.
\<close>

theorem downloadPDF_without_library:
  "downloadPDF (e\<lparr>jspdf := Missing\<rparr>) st = (Inl TypeError, st)"
  by (simp add: downloadPDF_def)

subsection \<open>The format of a booking id\<close>

text \<open>
  Claim C8. Every booking id generated at submission time has the format
  \<^verbatim>\<open>HT-YYYYMMDD-<6 trailing digits of the timestamp>\<close>: the prefix, the four digits of
  the year, two digits each for month and day, a hyphen, and the last six decimal digits
  of the timestamp. The clock reads a date of the years 1000 to 9999, and a time at least
  100 seconds after the epoch.
\<close>

theorem bookingId_format:
  assumes "submit e st = (Inr (Some d), st')"
    and "1000 \<le> getFullYear (now e)" and "getFullYear (now e) \<le> 9999"
    and "0 \<le> getMonth (now e)" and "getMonth (now e) \<le> 11"
    and "1 \<le> getDate (now e)" and "getDate (now e) \<le> 31"
    and "100000 \<le> getTime (now e)"
  shows "bookingId d =
           ''HT-'' @ digits 4 (nat (getFullYear (now e)))
             @ digits 2 (nat (getMonth (now e) + 1)) @ digits 2 (nat (getDate (now e)))
             @ ''-'' @ digits 6 (nat (getTime (now e)))
       \<and> length (bookingId d) = 18"
proof -
  from assms(1) have "build_ticketData e st = Inr d" by (rule submit_built)
  then have "bookingId d = make_bookingId (now e)" by (rule build_ticketData_fields)
  also have "\<dots> = spec_bookingId (now e)"
    using assms(2-8) by (rule make_bookingId_format)
  finally have eq: "bookingId d = spec_bookingId (now e)" .
  then show ?thesis by (simp add: spec_bookingId_def length_digits)
qed

theorem bookingId_format_witness:
  "fst (submit example_env flight_page) = Inr (Some flight_ticket)
   \<and> getFullYear (now example_env) = 2025 \<and> getMonth (now example_env) = 2
   \<and> getDate (now example_env) = 1 \<and> getTime (now example_env) = 1740807296123
   \<and> bookingId flight_ticket = ''HT-20250301-296123''
   \<and> length (bookingId flight_ticket) = 18"
proof -
  have clock: "getFullYear (now example_env) = 2025" "getMonth (now example_env) = 2"
    "getDate (now example_env) = 1" "getTime (now example_env) = 1740807296123"
    by (simp_all add: example_env_def)
  have "bookingId flight_ticket =
           ''HT-'' @ digits 4 (nat (getFullYear (now example_env)))
             @ digits 2 (nat (getMonth (now example_env) + 1))
             @ digits 2 (nat (getDate (now example_env)))
             @ ''-'' @ digits 6 (nat (getTime (now example_env)))
       \<and> length (bookingId flight_ticket) = 18"
    by (rule bookingId_format [OF flight_submit]) (simp_all add: clock)
  then show ?thesis
    by (simp add: clock flight_submit digits_numeral digit_char_def)
qed

subsection \<open>The rendered ticket\<close>

text \<open>
  The tokens of a concatenation: the second part is read in the state that the first part
  leaves. A text with no \<^verbatim>\<open><\<close> in it is character data and leaves the data state.
\<close>

lemma tokenize_from_append:
  "tokenize_from s (a @ b) = emitted s a @ tokenize_from (state_after s a) b"
  by (induction a arbitrary: s) simp_all

lemma state_after_append:
  "state_after s (a @ b) = state_after (state_after s a) b"
  by (induction a arbitrary: s) simp_all

lemma emitted_append:
  "emitted s (a @ b) = emitted s a @ emitted (state_after s a) b"
  by (induction a arbitrary: s) simp_all

lemma text_tokens:
  assumes "markup_free t"
  shows "emitted Data t = map Character t" and "state_after Data t = Data"
  using assms unfolding markup_free_def by (induction t) (auto simp: in_data_def)

lemmas tokenizer_defs =
  in_data_def in_comment_def in_bogus_comment_def before_attribute_name_def
  html_space_def ascii_alpha_def at_end_def

lemma tokens_later:
  "sublist x (tokenize_from (state_after s p) rest) \<Longrightarrow> sublist x (tokenize_from s (p @ rest))"
  unfolding tokenize_from_append
  by (metis sublist_order.order_trans sublist_append_leftI)

lemma tokens_here:
  "s = Data \<Longrightarrow> sublist (emitted Data region) (tokenize_from s (region @ rest))"
  by (simp add: tokenize_from_append)

lemma details_here:
  "s = Data \<Longrightarrow>
   sublist (emitted Data (p1 @ p2 @ p3 @ p4 @ p5 @ p6 @ p7 @ p8 @ p9 @ p10 @ p11))
     (tokenize_from s (p1 @ p2 @ p3 @ p4 @ p5 @ p6 @ p7 @ p8 @ p9 @ p10 @ p11 @ rest))"
  using tokens_here [of s "p1 @ p2 @ p3 @ p4 @ p5 @ p6 @ p7 @ p8 @ p9 @ p10 @ p11" rest]
  by simp

text \<open>
  The markup of a ticket that has no arrive date and whose texts ahead of the details hold
  no \<^verbatim>\<open><\<close>: the tokenizer reaches the Arrive label in the data state, and reads the
  two items as the template has them.
\<close>

lemma markup_free_or_else:
  "markup_free a \<Longrightarrow> markup_free b \<Longrightarrow> markup_free (or_else a b)"
  by (simp add: or_else_def)

lemma show_nat_digits: "set (show_nat n) \<subseteq> set ''0123456789''"
proof (induction n rule: show_nat.induct)
  case (1 n)
  have d: "digit_char k \<in> set ''0123456789''" for k
    unfolding digit_char_def by (rule nth_mem) simp
  show ?case
  proof (cases "n < 10")
    case True
    with d [of n] show ?thesis by (simp add: show_nat.simps [of n])
  next
    case False
    with 1 d [of "n mod 10"] show ?thesis by (simp add: show_nat.simps [of n])
  qed
qed

lemma make_bookingId_markup_free: "markup_free (make_bookingId c)"
proof -
  have n: "CHR ''<'' \<notin> set (show_nat k)" for k
    using show_nat_digits [of k] by auto
  have i: "CHR ''<'' \<notin> set (show_int k)" for k
    by (simp add: show_int_def n)
  have p: "CHR ''<'' \<notin> set (padStart2 (show_int k))" for k
    by (simp add: padStart2_def i)
  have s: "CHR ''<'' \<notin> set (slice_last6 (show_int k))" for k
    unfolding slice_last6_def using i [of k] by (meson in_set_dropD)
  show ?thesis
    by (simp add: markup_free_def make_bookingId_def i p s)
qed

lemma details_cells:
  "sublist (detail_item ''Arrive'' ''TBA'') (emitted Data (details_markup ''TBA'' ''TBA''))"
  "sublist (detail_item ''Duration'' ''TBA'') (emitted Data (details_markup ''TBA'' ''TBA''))"
  by (simp_all add: details_markup_def detail_item_def tokenizer_defs sublist_code(3) prefix_code(2))

lemma details_of_ticket:
  assumes "arriveDateTime d = []" and "duration d = []" and "logoUrl d = []"
    and "distanceKm d = None" and "markup_free (bookingId d)"
    and "list_all markup_free (texts_before_details e d)"
  shows "sublist (emitted Data (details_markup ''TBA'' ''TBA'')) (tokenize (buildHtml e d))"
proof -
  have arrive: "(if arriveDateTime d = [] then ''TBA'' else formatDate e (arriveDateTime d)) = ''TBA''"
    using assms(1) by simp
  have dur: "or_else (or_else (duration d)
                        (computeDuration e (departDateTime d) (arriveDateTime d))) ''TBA'' = ''TBA''"
    using assms(1,2) by (simp add: or_else_def computeDuration_def)
  have dist: "(case distanceKm d of None \<Rightarrow> em_dash
               | Some n \<Rightarrow> if n = 0 then em_dash else show_int n @ '' km'') = em_dash"
    using assms(4) by simp
  have lit: "markup_free ''HT-TBA''" "markup_free ''Passenger Name''" "markup_free ''Origin''"
    "markup_free ''Destination''" "markup_free ''Transport''" "markup_free ''Provider''"
    "markup_free ''Class / Seat''"
    by (simp_all add: markup_free_def)
  from assms(6) have texts:
    "markup_free (passengerName d)" "markup_free (contactPhone d)" "markup_free (contactEmail d)"
    "markup_free (origin (route d))" "markup_free (destination (route d))"
    "markup_free (transportType d)" "markup_free (provider d)" "markup_free (classOrSeat d)"
    "markup_free (formatDate e (departDateTime d))"
    by (simp_all add: texts_before_details_def)
  show ?thesis
    unfolding tokenize_def buildHtml_def Let_def arrive dur dist details_markup_def
    apply (rule details_here
             [where ?p1.0 = \<open>''            <div class="detail-label">Arrive</div>\<newline>''\<close>]
           | rule tokens_later)+
    apply (simp add: state_after_append text_tokens(2) markup_free_or_else lit texts assms(3,5)
             em_dash_def right_arrow_def tokenizer_defs del: append.simps)
    done
qed

text \<open>The ticket with the passenger name \<^verbatim>\<open><!--\<close>: no token of its markup is a detail label.\<close>

lemma comment_build: "build_ticketData example_env comment_page = Inr comment_ticket"
  by (simp add: comment_page_def comment_ticket_def flight_page_def fill_passenger_def pick_flight
        build_ticketData_def getPrice_def get_property_def PRICE_MATRIX_def example_env_def
        blank_page_def make_bookingId_def flight_ticket_def text_defs Let_def)

lemma comment_submit:
  "submit example_env comment_page =
     (Inr (Some comment_ticket), snd (after_render example_env comment_ticket
                                        (snd (init example_env comment_ticket comment_page))))"
proof (rule submit_accepts)
  show "build_ticketData example_env comment_page = Inr comment_ticket" by (rule comment_build)
qed (simp_all add: comment_page_def flight_page_def fill_passenger_def example_env_def text_defs)

lemma not_sublist_absent: "x \<notin> set ys \<Longrightarrow> \<not> sublist (x # xs) ys"
  by (auto simp: sublist_def)

lemma comment_tokens:
  "StartTag ''div'' [(''class'', ''detail-label'')]
     \<notin> set (tokenize (buildHtml example_env comment_ticket))"
  unfolding tokenize_def buildHtml_def Let_def
  by (simp add: tokenize_from_append emitted_append state_after_append tokenizer_defs
        comment_ticket_def flight_ticket_def example_env_def formatDate_def fmtKES_def
        computeDuration_def or_else_def show_int_def show_nat.simps digit_char_def
        em_dash_def right_arrow_def
        del: append.simps)

text \<open>
  Claim C9. For every booking record whose arrive timestamp is absent, the rendered
  ticket's Arrive field shows the text \<^verbatim>\<open>TBA\<close> and its Duration field shows the text
  \<^verbatim>\<open>TBA\<close>. The template does set \<^verbatim>\<open>TBA\<close> into both value elements, but every field
  is interpolated unescaped, and a field with markup in it changes what the browser reads.
  The passenger name \<^verbatim>\<open><!--\<close> passes the validation; in the ticket rendered for it the
  rest of the markup is a comment that never closes, and there is no Arrive and no
  Duration field.
\<close>

theorem comment_in_name_hides_details:
  "fst (submit example_env comment_page) = Inr (Some comment_ticket)
   \<and> arriveDateTime comment_ticket = []
   \<and> ticketContainer (snd (submit example_env comment_page))
       = Some (buildHtml example_env comment_ticket)
   \<and> \<not> shows_detail (buildHtml example_env comment_ticket) ''Arrive'' ''TBA''
   \<and> \<not> shows_detail (buildHtml example_env comment_ticket) ''Duration'' ''TBA''"
proof -
  have s: "submit example_env comment_page
             = (Inr (Some comment_ticket), snd (submit example_env comment_page))"
    by (simp add: comment_submit)
  have "\<not> shows_detail (buildHtml example_env comment_ticket) l ''TBA''" for l
    unfolding shows_detail_def detail_item_def using comment_tokens by (rule not_sublist_absent)
  moreover have "arriveDateTime comment_ticket = []"
    by (simp add: comment_ticket_def flight_ticket_def)
  moreover have "ticketContainer (snd (submit example_env comment_page))
                   = Some (buildHtml example_env comment_ticket)"
    using s by (rule submit_renders)
  ultimately show ?thesis by (simp add: comment_submit)
qed

text \<open>
  Claim C9, amended. For every booking record that a submission builds with no arrive
  timestamp, and in which none of the texts set ahead of the two fields (passenger name,
  phone, email, origin, destination, category, provider, class and the formatted depart
  time) holds a \<^verbatim>\<open><\<close>, the rendered ticket's Arrive field shows the text \<^verbatim>\<open>TBA\<close> and
  its Duration field shows the text \<^verbatim>\<open>TBA\<close>.
\<close>

theorem no_arrival_shows_TBA:
  assumes "submit e st = (Inr (Some d), st')" and "arriveDateTime d = []"
    and "list_all markup_free (texts_before_details e d)"
  shows "ticketContainer st' = Some (buildHtml e d)
       \<and> shows_detail (buildHtml e d) ''Arrive'' ''TBA''
       \<and> shows_detail (buildHtml e d) ''Duration'' ''TBA''"
proof -
  from assms(1) have "build_ticketData e st = Inr d" by (rule submit_built)
  then have f: "duration d = []" "logoUrl d = []" "distanceKm d = None"
    "bookingId d = make_bookingId (now e)"
    by (rule build_ticketData_fields)+
  have id: "markup_free (bookingId d)" by (simp add: f(4) make_bookingId_markup_free)
  have region: "sublist (emitted Data (details_markup ''TBA'' ''TBA'')) (tokenize (buildHtml e d))"
    using assms(2) f(1-3) id assms(3) by (rule details_of_ticket)
  have "shows_detail (buildHtml e d) ''Arrive'' ''TBA''"
    unfolding shows_detail_def using details_cells(1) region by (rule sublist_order.order_trans)
  moreover have "shows_detail (buildHtml e d) ''Duration'' ''TBA''"
    unfolding shows_detail_def using details_cells(2) region by (rule sublist_order.order_trans)
  moreover have "ticketContainer st' = Some (buildHtml e d)"
    using assms(1) by (rule submit_renders)
  ultimately show ?thesis by simp
qed

theorem no_arrival_shows_TBA_witness:
  "fst (submit example_env flight_page) = Inr (Some flight_ticket)
   \<and> arriveDateTime flight_ticket = []
   \<and> list_all markup_free (texts_before_details example_env flight_ticket)
   \<and> ticketContainer (snd (submit example_env flight_page))
       = Some (buildHtml example_env flight_ticket)
   \<and> shows_detail (buildHtml example_env flight_ticket) ''Arrive'' ''TBA''
   \<and> shows_detail (buildHtml example_env flight_ticket) ''Duration'' ''TBA''"
proof -
  have a: "arriveDateTime flight_ticket = []" by (simp add: flight_ticket_def)
  have t: "list_all markup_free (texts_before_details example_env flight_ticket)"
    by (simp add: texts_before_details_def markup_free_def flight_ticket_def formatDate_def
          example_env_def)
  have s: "submit example_env flight_page
             = (Inr (Some flight_ticket), snd (submit example_env flight_page))"
    by (simp add: flight_submit)
  from no_arrival_shows_TBA [OF s a t] show ?thesis by (simp add: flight_submit a t)
qed

subsection \<open>Defaults of the route\<close>

text \<open>
  Claim C10. For every otherwise valid form submission in which the origin field is
  empty, the route origin of the built record is the default \<^verbatim>\<open>Nairobi\<close>, and when the
  destination field is empty its route destination is the default \<^verbatim>\<open>TBA\<close>; an empty
  origin or destination never causes a validation failure. Otherwise valid: the required
  fields are filled, the dates parse, the price lookup and the page elements are there.
\<close>

theorem route_defaults:
  assumes "trim (passengerName_input st) \<noteq> []" and "trim (phone_input st) \<noteq> []"
    and "trim (email_input st) \<noteq> []" and "startDate_input st \<noteq> []"
    and "Date_parse e (startDate_input st) \<noteq> None"
    and "endDate_input st = [] \<or> Date_parse e (endDate_input st) \<noteq> None"
    and "getPrice st = Inr p"
    and "has_ticketContainer e" and "has_toast e"
  shows "\<exists>d st'. submit e st = (Inr (Some d), st')
           \<and> (origin_input st = [] \<longrightarrow> origin (route d) = ''Nairobi'')
           \<and> (destination_input st = [] \<longrightarrow> destination (route d) = ''TBA'')
           \<and> (origin_input st \<noteq> [] \<longrightarrow> origin (route d) = origin_input st)
           \<and> (destination_input st \<noteq> [] \<longrightarrow> destination (route d) = destination_input st)"
proof -
  from assms(5,6,7) obtain d where built: "build_ticketData e st = Inr d"
    using build_ticketData_succeeds by blast
  from assms(1-4) built assms(8,9)
  have "submit e st = (Inr (Some d), snd (after_render e d (snd (init e d st))))"
    by (rule submit_accepts)
  moreover from build_ticketData_fields(5,6) [OF built]
  have "origin (route d) = or_else (origin_input st) ''Nairobi''"
    and "destination (route d) = or_else (destination_input st) ''TBA''" .
  ultimately show ?thesis by (auto simp: or_else_def)
qed

theorem route_defaults_witness:
  "origin_input flight_page = [] \<and> destination_input flight_page = []
   \<and> fst (submit example_env flight_page) = Inr (Some flight_ticket)
   \<and> origin (route flight_ticket) = ''Nairobi''
   \<and> destination (route flight_ticket) = ''TBA''"
proof -
  have blank: "origin_input flight_page = []" "destination_input flight_page = []"
    by (simp_all add: flight_page_def fill_passenger_def pick_flight blank_page_def)
  have "\<exists>d st'. submit example_env flight_page = (Inr (Some d), st')
           \<and> (origin_input flight_page = [] \<longrightarrow> origin (route d) = ''Nairobi'')
           \<and> (destination_input flight_page = [] \<longrightarrow> destination (route d) = ''TBA'')
           \<and> (origin_input flight_page \<noteq> [] \<longrightarrow> origin (route d) = origin_input flight_page)
           \<and> (destination_input flight_page \<noteq> [] \<longrightarrow> destination (route d) = destination_input flight_page)"
  proof (rule route_defaults)
    show "getPrice flight_page = Inr (Price 70000)"
      by (simp add: flight_page_def fill_passenger_def pick_flight getPrice_def
            get_property_def PRICE_MATRIX_def blank_page_def)
  qed (simp_all add: flight_page_def fill_passenger_def pick_flight blank_page_def
         example_env_def text_defs)
  with blank show ?thesis by (auto simp: flight_submit)
qed

end
